theory Spec2Isabelle
  imports Main "HOL-Library.List_Lexorder" "HOL-Library.Char_ord"
begin

section \<open>Data model (src/types/index.ts, src/services/database.ts)\<close>

text \<open>
  Representation choices.
  \<^item> A calendar date is the canonical \<open>YYYY-MM-DD\<close> text that \<open>parseKoreanDate\<close> returns.
    The handlers and the queries modelled here compare dates for equality only and hand
    them to dayjs, so a date is represented by its day number (an \<open>int\<close>).
  \<^item> A clock time is kept as the text the database stores (\<open>start_time\<close>, \<open>end_time\<close>
    are TEXT columns). SQLite compares TEXT bytewise; that is the lexicographic order on
    \<open>string\<close> used below.
  \<^item> A dayjs value is \<open>int option\<close>: milliseconds on the local time line, \<open>None\<close> for
    dayjs's Invalid Date. The local time zone is taken without clock changes (the
    configured default, Asia/Seoul, has none).
  \<^item> The row number \<open>id\<close> of the tables is the position in the list of rows; the two
    time stamps of a room are left out.
  \<^item> A user-facing message is the template the handler fills in, with the values it
    interpolates; the wording of the text is not modelled.
\<close>

datatype booking_status = active | cancelled | completed

type_synonym date = int

record Room =
  rid :: nat
  name :: string
  displayName :: string
  email :: string
  calendarId :: string
  capacity :: int
  location :: string
  autoAccept :: bool

record Booking =
  bookingId :: string
  roomId :: nat
  booking_calendarId :: string
  eventId :: string
  title :: string
  date :: date
  startTime :: string
  endTime :: string
  durationMinutes :: int
  requestedBy :: string
  requestedByName :: string
  status :: booking_status
  createdAt :: string
  updatedAt :: string

datatype CommandType = status_cmd | book_cmd | cancel_cmd | move_cmd | extend_cmd | my_cmd | help_cmd | list_cmd

datatype audit_status = success_status | failure_status

record JandiOutgoingWebhookPayload =
  token :: string
  teamName :: string
  roomName :: string
  writerName :: string
  writerEmail :: string
  payload_text :: string
  data :: string
  keyword :: string
  ip :: string
  payload_createdAt :: string

datatype error_code =
  PARSE_ERROR | UNKNOWN_COMMAND | INTERNAL_ERROR | STATUS_ERROR | ROOM_NOT_FOUND | PAST_TIME
| OUTSIDE_HOURS | CONFLICT | BOOKING_ERROR | BOOKING_NOT_FOUND | INVALID_STATUS | UNAUTHORIZED
| CANCEL_ERROR | INVALID_LIST | MOVE_ERROR | MAX_DURATION | EXTEND_ERROR

datatype message =
  MsgText string
| MsgParseError string
| MsgHelp
| MsgInternalError string
| MsgRoomNotFound string
| MsgPastTime
| MsgOutsideHours string string
| MsgBookConflict string date string string
| MsgBooked string string date string string int string string
| MsgBookingError string
| MsgBookingNotFound string
| MsgInvalidStatus booking_status
| MsgCancelUnauthorized
| MsgCancelled string "string option" date string string string
| MsgMoveUnauthorized
| MsgRoomInfoNotFound
| MsgMoveConflict
| MsgMoved string string date string string date string string
| MsgExtendUnauthorized
| MsgMaxDuration int
| MsgExtendConflict
| MsgExtended string string date string string int int

record CommandError =
  code :: error_code
  details :: "string option"

record CommandResult =
  success :: bool
  message :: message
  result_data :: "string option"
  error :: "CommandError option"

record BookingPolicy =
  maxDurationMinutes :: int
  minDurationMinutes :: int
  bufferMinutes :: int
  bookingHoursStart :: string
  bookingHoursEnd :: string
  allowedDaysAhead :: int
  timezone :: string

record AuditLog =
  log_userEmail :: string
  log_userName :: string
  log_command :: string
  log_commandType :: CommandType
  log_parameters :: JandiOutgoingWebhookPayload
  log_status :: audit_status
  log_response :: message
  log_errorMessage :: "string option"
  log_ipAddress :: string
  log_roomName :: string
  log_timestamp :: string

datatype log_line =
  LogReceived string string string
| LogFailed string CommandType
| LogCompleted string CommandType bool int

record state =
  rooms :: "Room list"
  bookings :: "Booking list"
  audit_logs :: "AuditLog list"
  process_log :: "log_line list"

section \<open>Booking store (src/services/database.ts)\<close>

text \<open>
  A table is the list of its rows in the order of insertion, and a query or a statement is a
  function of the state. A statement that writes takes the text \<open>datetime('now')\<close> of the
  database clock as \<open>ts\<close>. Reads and writes are taken to succeed, except the INSERT of a
  booking whose identifier is already stored. The update functions return whether a row
  changed; no handler uses that result, and it is left out. \<open>LOWER\<close> of SQLite folds the
  letters A to Z only.
\<close>

definition sqlite_lower_char :: "char \<Rightarrow> char" where
  "sqlite_lower_char c =
     (if (65::nat) \<le> of_char c \<and> of_char c \<le> (90::nat) then char_of (of_char c + (32::nat)) else c)"

definition sqlite_lower :: "string \<Rightarrow> string" where
  "sqlite_lower s = map sqlite_lower_char s"

definition getRoomByName :: "state \<Rightarrow> string \<Rightarrow> Room option" where
  "getRoomByName st n = find (\<lambda>r. sqlite_lower (name r) = sqlite_lower n) (rooms st)"

definition getRoomById :: "state \<Rightarrow> nat \<Rightarrow> Room option" where
  "getRoomById st i = find (\<lambda>r. rid r = i) (rooms st)"

definition getBookingById :: "state \<Rightarrow> string \<Rightarrow> Booking option" where
  "getBookingById st bid = find (\<lambda>b. bookingId b = bid) (bookings st)"

text \<open>
  \<open>createBooking\<close>: the column \<open>booking_id\<close> is UNIQUE, so the INSERT throws when the
  identifier is already stored; \<open>None\<close> is that exception.
\<close>

definition createBooking :: "state \<Rightarrow> string \<Rightarrow> Booking \<Rightarrow> state option" where
  "createBooking st ts b =
     (if bookingId b \<in> set (map bookingId (bookings st)) then None
      else Some (st\<lparr>bookings := bookings st @ [b\<lparr>createdAt := ts, updatedAt := ts\<rparr>]\<rparr>))"

definition updateBookingStatus :: "state \<Rightarrow> string \<Rightarrow> string \<Rightarrow> booking_status \<Rightarrow> state" where
  "updateBookingStatus st ts bid s =
     st\<lparr>bookings := map (\<lambda>b. if bookingId b = bid then b\<lparr>status := s, updatedAt := ts\<rparr> else b)
                        (bookings st)\<rparr>"

text \<open>The time condition of the query of \<open>checkRoomAvailability\<close>, with its parameters bound
  in the order of the \<open>params\<close> array.\<close>

definition sql_time_condition :: "Booking \<Rightarrow> string \<Rightarrow> string \<Rightarrow> bool" where
  "sql_time_condition b startTime' endTime' \<longleftrightarrow>
       (startTime b < endTime' \<and> endTime b > startTime')
     \<or> (startTime b < endTime' \<and> endTime b > endTime')
     \<or> (startTime b \<ge> startTime' \<and> endTime b \<le> endTime')"

text \<open>\<open>if (excludeBookingId)\<close>: the clause is added for a given, non-empty identifier only.\<close>

definition exclude_clause :: "string option \<Rightarrow> Booking \<Rightarrow> bool" where
  "exclude_clause excludeBookingId b =
     (case excludeBookingId of
        None \<Rightarrow> True
      | Some x \<Rightarrow> (if x = [] then True else bookingId b \<noteq> x))"

definition checkRoomAvailability ::
  "state \<Rightarrow> nat \<Rightarrow> date \<Rightarrow> string \<Rightarrow> string \<Rightarrow> string option \<Rightarrow> bool" where
  "checkRoomAvailability st room_id d startTime' endTime' excludeBookingId =
     (length (filter (\<lambda>b. roomId b = room_id \<and> date b = d \<and> status b = active
                          \<and> sql_time_condition b startTime' endTime'
                          \<and> exclude_clause excludeBookingId b) (bookings st)) = 0)"

definition updateBookingTime :: "state \<Rightarrow> string \<Rightarrow> string \<Rightarrow> date \<Rightarrow> string \<Rightarrow> string \<Rightarrow> state" where
  "updateBookingTime st ts bid d startTime' endTime' =
     st\<lparr>bookings := map (\<lambda>b. if bookingId b = bid
                              then b\<lparr>date := d, startTime := startTime', endTime := endTime', updatedAt := ts\<rparr>
                              else b) (bookings st)\<rparr>"

definition updateBookingEndTime :: "state \<Rightarrow> string \<Rightarrow> string \<Rightarrow> string \<Rightarrow> int \<Rightarrow> state" where
  "updateBookingEndTime st ts bid endTime' durationMinutes' =
     st\<lparr>bookings := map (\<lambda>b. if bookingId b = bid
                              then b\<lparr>endTime := endTime', durationMinutes := durationMinutes', updatedAt := ts\<rparr>
                              else b) (bookings st)\<rparr>"

text \<open>\<open>createAuditLog\<close>: the row gets its \<open>timestamp\<close> from the database clock, and an empty
  error message is stored as NULL (\<open>log.errorMessage || null\<close>).\<close>

definition createAuditLog :: "state \<Rightarrow> string \<Rightarrow> AuditLog \<Rightarrow> state" where
  "createAuditLog st ts entry =
     st\<lparr>audit_logs := audit_logs st @
        [entry\<lparr>log_errorMessage := (case log_errorMessage entry of
                                        None \<Rightarrow> None
                                      | Some m \<Rightarrow> (if m = [] then None else Some m)),
               log_timestamp := ts\<rparr>]\<rparr>"

section \<open>Clock texts: the parser's pattern and the dayjs operations the handlers use\<close>

type_synonym dayjs = "int option"

definition is_digit :: "char \<Rightarrow> bool" where
  "is_digit c \<longleftrightarrow> c \<in> set ''0123456789''"

text \<open>The value of a decimal digit (0 for any other character).\<close>

definition digit_value :: "char \<Rightarrow> nat" where
  "digit_value c = (if is_digit c then of_char c - of_char (CHR ''0'') else 0)"

text \<open>\<open>timeRegex = /^([01]?[0-9]|2[0-3]):[0-5][0-9]$/\<close> of \<open>parseBookCommand\<close> and
  \<open>parseMoveCommand\<close> (src/services/commandParser.ts).\<close>

fun timeRegex_test :: "string \<Rightarrow> bool" where
  "timeRegex_test [h, c, m1, m2] \<longleftrightarrow>
     is_digit h \<and> c = CHR '':'' \<and> m1 \<in> set ''012345'' \<and> is_digit m2"
| "timeRegex_test [h1, h2, c, m1, m2] \<longleftrightarrow>
     ((h1 \<in> set ''01'' \<and> is_digit h2) \<or> (h1 = CHR ''2'' \<and> h2 \<in> set ''0123''))
     \<and> c = CHR '':'' \<and> m1 \<in> set ''012345'' \<and> is_digit m2"
| "timeRegex_test _ \<longleftrightarrow> False"

text \<open>The checks of \<open>parseBookCommand\<close> on the start time text and on the parsed duration,
  in its order: the pattern, a positive number, the bounds of the policy.\<close>

definition parseBookCommand_accepts :: "BookingPolicy \<Rightarrow> string \<Rightarrow> int \<Rightarrow> bool" where
  "parseBookCommand_accepts bookingPolicy startTime' duration \<longleftrightarrow>
     timeRegex_test startTime' \<and> \<not> duration \<le> 0
     \<and> \<not> duration < minDurationMinutes bookingPolicy
     \<and> \<not> duration > maxDurationMinutes bookingPolicy"

text \<open>Minutes after midnight of a clock text of the shape \<open>H:mm\<close> or \<open>HH:mm\<close>.\<close>

fun clock_minutes :: "string \<Rightarrow> nat" where
  "clock_minutes [h, c, m1, m2] = digit_value h * 60 + digit_value m1 * 10 + digit_value m2"
| "clock_minutes [h1, h2, c, m1, m2] =
     (digit_value h1 * 10 + digit_value h2) * 60 + digit_value m1 * 10 + digit_value m2"
| "clock_minutes _ = 0"


text \<open>
  \<open>dayjs(`${date} ${time}`, 'YYYY-MM-DD HH:mm')\<close>. The clock texts that reach dayjs are
  start times the parser has matched against \<open>timeRegex\<close> and end times dayjs has
  formatted itself; dayjs reads one or two digits for \<open>HH\<close>. Any other text is taken as
  Invalid Date.
\<close>

definition dayjs_parse :: "date \<Rightarrow> string \<Rightarrow> dayjs" where
  "dayjs_parse d t =
     (if timeRegex_test t then Some ((d * 1440 + int (clock_minutes t)) * 60000) else None)"

definition dayjs_add_minute :: "dayjs \<Rightarrow> int \<Rightarrow> dayjs" where
  "dayjs_add_minute x n = (case x of None \<Rightarrow> None | Some t \<Rightarrow> Some (t + n * 60000))"

definition dayjs_hour :: "dayjs \<Rightarrow> int option" where
  "dayjs_hour x = (case x of None \<Rightarrow> None | Some t \<Rightarrow> Some ((t div 3600000) mod 24))"

definition dayjs_isBefore :: "dayjs \<Rightarrow> dayjs \<Rightarrow> bool" where
  "dayjs_isBefore x y = (case x of None \<Rightarrow> False | Some a \<Rightarrow> (case y of None \<Rightarrow> False | Some b \<Rightarrow> a < b))"

definition pad2 :: "nat \<Rightarrow> string" where
  "pad2 n = [''0123456789'' ! (n div 10 mod 10), ''0123456789'' ! (n mod 10)]"

definition dayjs_format_HHmm :: "dayjs \<Rightarrow> string" where
  "dayjs_format_HHmm x =
     (case x of
        None \<Rightarrow> ''Invalid Date''
      | Some t \<Rightarrow> pad2 (nat ((t div 3600000) mod 24)) @ '':'' @ pad2 (nat ((t div 60000) mod 60)))"

section \<open>JavaScript helpers\<close>

text \<open>\<open>parseInt(s, 10)\<close>: leading white space, an optional sign, then the longest run of
  digits; \<open>None\<close> is NaN.\<close>

definition js_parseInt :: "string \<Rightarrow> int option" where
  "js_parseInt s =
     (let s1 = dropWhile (\<lambda>c. c \<in> set [CHR '' '', CHR 0x09, CHR 0x0A, CHR 0x0B, CHR 0x0C, CHR 0x0D]) s;
          neg = (case s1 of [] \<Rightarrow> False | c # r \<Rightarrow> c = CHR ''-'');
          s2 = (case s1 of [] \<Rightarrow> [] | c # r \<Rightarrow> (if c = CHR ''-'' \<or> c = CHR ''+'' then r else s1));
          ds = takeWhile is_digit s2
      in if ds = [] then None
         else Some ((if neg then - 1 else 1) * int (foldl (\<lambda>a c. 10 * a + digit_value c) 0 ds)))"

text \<open>\<open><\<close> on numbers: a comparison with NaN is false.\<close>

definition js_less :: "int option \<Rightarrow> int option \<Rightarrow> bool" where
  "js_less x y = (case x of None \<Rightarrow> False | Some a \<Rightarrow> (case y of None \<Rightarrow> False | Some b \<Rightarrow> a < b))"

definition policy_hour :: "string \<Rightarrow> int option" where
  "policy_hour s = js_parseInt (takeWhile (\<lambda>c. c \<noteq> CHR '':'') s)"

section \<open>Command handlers (commandHandler: src/unnamed/part_002)\<close>

record BookCommandArgs =
  book_roomName :: string
  book_date :: date
  book_startTime :: string
  book_duration :: int
  book_title :: string

record CancelCommandArgs =
  cancel_bookingId :: string

record MoveCommandArgs =
  move_bookingId :: string
  move_date :: date
  move_startTime :: string

record ExtendCommandArgs =
  extend_bookingId :: string
  extend_additionalMinutes :: int

text \<open>
  What one request reads from outside the store: the instant \<open>dayjs()\<close> in the handler,
  the text \<open>datetime('now')\<close> of the database at the handler's write, the identifier that
  \<open>generateBookingId()\<close> returns (made from the clock and a random number), the two
  readings of \<open>Date.now()\<close> (on entry of \<open>handleCommand\<close> and in \<open>logCommand\<close>), and
  the database clock at the audit insert.
\<close>

record env =
  dayjs_now :: int
  db_now :: string
  generated_id :: string
  request_start :: int
  request_end :: int
  audit_db_now :: string

definition failure :: "error_code \<Rightarrow> message \<Rightarrow> CommandResult" where
  "failure c m = \<lparr>success = False, message = m, result_data = None,
                   error = Some \<lparr>code = c, details = None\<rparr>\<rparr>"

definition succeeded :: "message \<Rightarrow> string option \<Rightarrow> CommandResult" where
  "succeeded m d = \<lparr>success = True, message = m, result_data = d, error = None\<rparr>"

definition handleBookCommand ::
  "BookingPolicy \<Rightarrow> env \<Rightarrow> state \<Rightarrow> BookCommandArgs \<Rightarrow> JandiOutgoingWebhookPayload
     \<Rightarrow> CommandResult \<times> state" where
  "handleBookCommand bookingPolicy ev st args payload =
     (case getRoomByName st (book_roomName args) of
        None \<Rightarrow> (failure ROOM_NOT_FOUND (MsgRoomNotFound (book_roomName args)), st)
      | Some room \<Rightarrow>
          (let startDateTime = dayjs_parse (book_date args) (book_startTime args);
               endDateTime = dayjs_add_minute startDateTime (book_duration args);
               endTime' = dayjs_format_HHmm endDateTime
           in if dayjs_isBefore startDateTime (Some (dayjs_now ev))
              then (failure PAST_TIME MsgPastTime, st)
              else
               (let startHour = dayjs_hour startDateTime;
                    endHour = dayjs_hour endDateTime;
                    policyStartHour = policy_hour (bookingHoursStart bookingPolicy);
                    policyEndHour = policy_hour (bookingHoursEnd bookingPolicy)
                in if js_less startHour policyStartHour \<or> js_less policyEndHour endHour
                   then (failure OUTSIDE_HOURS
                           (MsgOutsideHours (bookingHoursStart bookingPolicy) (bookingHoursEnd bookingPolicy)), st)
                   else if \<not> checkRoomAvailability st (rid room) (book_date args) (book_startTime args) endTime' None
                   then (failure CONFLICT
                           (MsgBookConflict (displayName room) (book_date args) (book_startTime args) endTime'), st)
                   else
                    (let bookingId' = generated_id ev
                     in case createBooking st (db_now ev)
                               \<lparr>bookingId = bookingId',
                                roomId = rid room,
                                booking_calendarId = calendarId room,
                                eventId = bookingId',
                                title = book_title args,
                                date = book_date args,
                                startTime = book_startTime args,
                                endTime = endTime',
                                durationMinutes = book_duration args,
                                requestedBy = writerEmail payload,
                                requestedByName = writerName payload,
                                status = active,
                                createdAt = [],
                                updatedAt = []\<rparr> of
                          None \<Rightarrow>
                            (failure BOOKING_ERROR
                               (MsgBookingError ''UNIQUE constraint failed: bookings.booking_id''), st)
                        | Some st' \<Rightarrow>
                            (succeeded
                               (MsgBooked bookingId' (displayName room) (book_date args) (book_startTime args)
                                  endTime' (book_duration args) (book_title args) (writerName payload))
                               (Some bookingId'), st')))))"

definition handleCancelCommand ::
  "env \<Rightarrow> state \<Rightarrow> CancelCommandArgs \<Rightarrow> JandiOutgoingWebhookPayload \<Rightarrow> CommandResult \<times> state" where
  "handleCancelCommand ev st args payload =
     (case getBookingById st (cancel_bookingId args) of
        None \<Rightarrow> (failure BOOKING_NOT_FOUND (MsgBookingNotFound (cancel_bookingId args)), st)
      | Some booking \<Rightarrow>
          if status booking \<noteq> active
          then (failure INVALID_STATUS (MsgInvalidStatus (status booking)), st)
          else if requestedBy booking \<noteq> writerEmail payload
          then (failure UNAUTHORIZED MsgCancelUnauthorized, st)
          else
           (let st' = updateBookingStatus st (db_now ev) (cancel_bookingId args) cancelled;
                room = getRoomById st' (roomId booking)
            in (succeeded
                  (MsgCancelled (cancel_bookingId args) (map_option displayName room) (date booking)
                     (startTime booking) (endTime booking) (title booking))
                  None, st')))"

definition handleMoveCommand ::
  "env \<Rightarrow> state \<Rightarrow> MoveCommandArgs \<Rightarrow> JandiOutgoingWebhookPayload \<Rightarrow> CommandResult \<times> state" where
  "handleMoveCommand ev st args payload =
     (let bookingId' = move_bookingId args;
          newDate = move_date args;
          newStartTime = move_startTime args
      in case getBookingById st bookingId' of
           None \<Rightarrow> (failure BOOKING_NOT_FOUND (MsgBookingNotFound bookingId'), st)
         | Some booking \<Rightarrow>
             if requestedBy booking \<noteq> writerEmail payload
             then (failure UNAUTHORIZED MsgMoveUnauthorized, st)
             else
              (case getRoomById st (roomId booking) of
                 None \<Rightarrow> (failure ROOM_NOT_FOUND MsgRoomInfoNotFound, st)
               | Some room \<Rightarrow>
                   (let startDateTime = dayjs_parse newDate newStartTime;
                        endDateTime = dayjs_add_minute startDateTime (durationMinutes booking);
                        newEndTime = dayjs_format_HHmm endDateTime
                    in if \<not> checkRoomAvailability st (rid room) newDate newStartTime newEndTime (Some bookingId')
                       then (failure CONFLICT MsgMoveConflict, st)
                       else
                        (succeeded
                           (MsgMoved bookingId' (displayName room) (date booking) (startTime booking)
                              (endTime booking) newDate newStartTime newEndTime)
                           None,
                         updateBookingTime st (db_now ev) bookingId' newDate newStartTime newEndTime))))"

definition handleExtendCommand ::
  "BookingPolicy \<Rightarrow> env \<Rightarrow> state \<Rightarrow> ExtendCommandArgs \<Rightarrow> JandiOutgoingWebhookPayload
     \<Rightarrow> CommandResult \<times> state" where
  "handleExtendCommand bookingPolicy ev st args payload =
     (let bookingId' = extend_bookingId args;
          additionalMinutes = extend_additionalMinutes args
      in case getBookingById st bookingId' of
           None \<Rightarrow> (failure BOOKING_NOT_FOUND (MsgBookingNotFound bookingId'), st)
         | Some booking \<Rightarrow>
             if requestedBy booking \<noteq> writerEmail payload
             then (failure UNAUTHORIZED MsgExtendUnauthorized, st)
             else
              (case getRoomById st (roomId booking) of
                 None \<Rightarrow> (failure ROOM_NOT_FOUND MsgRoomInfoNotFound, st)
               | Some room \<Rightarrow>
                   (let currentEndDateTime = dayjs_parse (date booking) (endTime booking);
                        newEndDateTime = dayjs_add_minute currentEndDateTime additionalMinutes;
                        newEndTime = dayjs_format_HHmm newEndDateTime;
                        newTotalMinutes = durationMinutes booking + additionalMinutes
                    in if newTotalMinutes > maxDurationMinutes bookingPolicy
                       then (failure MAX_DURATION (MsgMaxDuration (maxDurationMinutes bookingPolicy)), st)
                       else if \<not> checkRoomAvailability st (rid room) (date booking) (endTime booking)
                                    newEndTime (Some bookingId')
                       then (failure CONFLICT MsgExtendConflict, st)
                       else
                        (succeeded
                           (MsgExtended bookingId' (displayName room) (date booking) (startTime booking)
                              newEndTime additionalMinutes newTotalMinutes)
                           None,
                         updateBookingEndTime st (db_now ev) bookingId' newEndTime newTotalMinutes))))"

subsection \<open>handleCommand and logCommand\<close>

record StatusCommandArgs =
  status_date :: "date option"
  status_timeRange :: "string option"

record MyCommandArgs =
  my_filter :: "string option"

record ListCommandArgs =
  list_target :: "string option"
  list_date :: "date option"

text \<open>A parsed command: its type with the arguments of that type, and the raw text.\<close>

datatype ParsedCommand =
  HelpCommand string
| StatusCommand StatusCommandArgs string
| BookCommand BookCommandArgs string
| CancelCommand CancelCommandArgs string
| MyCommand MyCommandArgs string
| ListCommand ListCommandArgs string
| MoveCommand MoveCommandArgs string
| ExtendCommand ExtendCommandArgs string

fun command_type :: "ParsedCommand \<Rightarrow> CommandType" where
  "command_type (HelpCommand _) = help_cmd"
| "command_type (StatusCommand _ _) = status_cmd"
| "command_type (BookCommand _ _) = book_cmd"
| "command_type (CancelCommand _ _) = cancel_cmd"
| "command_type (MyCommand _ _) = my_cmd"
| "command_type (ListCommand _ _) = list_cmd"
| "command_type (MoveCommand _ _) = move_cmd"
| "command_type (ExtendCommand _ _) = extend_cmd"

datatype ParseResult = ParseFailure string | ParseSuccess ParsedCommand

record JandiWebhookResponse =
  body :: message
  connectColor :: string

definition formatResponse :: "CommandResult \<Rightarrow> JandiWebhookResponse" where
  "formatResponse result =
     \<lparr>body = message result, connectColor = (if success result then ''#2ECC71'' else ''#E74C3C'')\<rparr>"

definition logCommand ::
  "env \<Rightarrow> state \<Rightarrow> JandiOutgoingWebhookPayload \<Rightarrow> CommandType \<Rightarrow> CommandResult \<Rightarrow> int \<Rightarrow> state" where
  "logCommand ev st payload commandType result startTime' =
     (let duration = request_end ev - startTime';
          st1 = createAuditLog st (audit_db_now ev)
                  \<lparr>log_userEmail = writerEmail payload,
                   log_userName = writerName payload,
                   log_command = payload_text payload,
                   log_commandType = commandType,
                   log_parameters = payload,
                   log_status = (if success result then success_status else failure_status),
                   log_response = message result,
                   log_errorMessage = (case error result of None \<Rightarrow> None | Some e \<Rightarrow> details e),
                   log_ipAddress = ip payload,
                   log_roomName = roomName payload,
                   log_timestamp = []\<rparr>
      in st1\<lparr>process_log := process_log st1 @
               [LogCompleted (writerEmail payload) commandType (success result) duration]\<rparr>)"

text \<open>
  The read-only collaborators of \<open>handleCommand\<close> are parameters: \<open>parseCommand\<close>, and
  the handlers of \<open>status\<close>, \<open>my\<close> and \<open>list\<close>, which only query the store. Such a
  handler returns its result (\<open>Inr\<close>) or throws (\<open>Inl\<close>, with the message of the error),
  and the \<open>try\<close> of \<open>handleCommand\<close> catches what it throws.
\<close>

record collaborators =
  parseCommand :: "string \<Rightarrow> ParseResult"
  handleStatusCommand :: "state \<Rightarrow> StatusCommandArgs \<Rightarrow> string + CommandResult"
  handleMyCommand :: "state \<Rightarrow> MyCommandArgs \<Rightarrow> JandiOutgoingWebhookPayload \<Rightarrow> string + CommandResult"
  handleListCommand :: "state \<Rightarrow> ListCommandArgs \<Rightarrow> string + CommandResult"

definition caught :: "state \<Rightarrow> CommandType \<Rightarrow> string + CommandResult \<Rightarrow> CommandResult \<times> state" where
  "caught st commandType r =
     (case r of
        Inr result \<Rightarrow> (result, st)
      | Inl error_message \<Rightarrow>
          (\<lparr>success = False, message = MsgInternalError error_message, result_data = None,
            error = Some \<lparr>code = INTERNAL_ERROR, details = Some error_message\<rparr>\<rparr>,
           st\<lparr>process_log := process_log st @ [LogFailed error_message commandType]\<rparr>))"

definition handleCommand ::
  "collaborators \<Rightarrow> BookingPolicy \<Rightarrow> env \<Rightarrow> state \<Rightarrow> JandiOutgoingWebhookPayload
     \<Rightarrow> JandiWebhookResponse \<times> state" where
  "handleCommand co bookingPolicy ev st payload =
     (let startTime' = request_start ev;
          st0 = st\<lparr>process_log := process_log st @
                   [LogReceived (writerEmail payload) (data payload) (roomName payload)]\<rparr>
      in case parseCommand co (data payload) of
           ParseFailure parse_error \<Rightarrow>
             (let result = \<lparr>success = False, message = MsgParseError parse_error, result_data = None,
                            error = Some \<lparr>code = PARSE_ERROR, details = None\<rparr>\<rparr>
              in (formatResponse result, logCommand ev st0 payload help_cmd result startTime'))
         | ParseSuccess command \<Rightarrow>
             (let (result, st1) =
                    (case command of
                       HelpCommand _ \<Rightarrow> (succeeded MsgHelp None, st0)
                     | StatusCommand args _ \<Rightarrow> caught st0 status_cmd (handleStatusCommand co st0 args)
                     | BookCommand args _ \<Rightarrow> handleBookCommand bookingPolicy ev st0 args payload
                     | CancelCommand args _ \<Rightarrow> handleCancelCommand ev st0 args payload
                     | MyCommand args _ \<Rightarrow> caught st0 my_cmd (handleMyCommand co st0 args payload)
                     | ListCommand args _ \<Rightarrow> caught st0 list_cmd (handleListCommand co st0 args)
                     | MoveCommand args _ \<Rightarrow> handleMoveCommand ev st0 args payload
                     | ExtendCommand args _ \<Rightarrow> handleExtendCommand bookingPolicy ev st0 args payload)
              in (formatResponse result, logCommand ev st1 payload (command_type command) result startTime')))"

subsection \<open>Sequences of booking operations\<close>

datatype operation =
  Book BookCommandArgs
| Cancel CancelCommandArgs
| Move MoveCommandArgs
| Extend ExtendCommandArgs

text \<open>One request: what it reads from outside, who sends it, and the operation.\<close>

type_synonym request = "env \<times> JandiOutgoingWebhookPayload \<times> operation"

fun apply_operation :: "BookingPolicy \<Rightarrow> state \<Rightarrow> request \<Rightarrow> CommandResult \<times> state" where
  "apply_operation bookingPolicy st (ev, payload, Book args) = handleBookCommand bookingPolicy ev st args payload"
| "apply_operation bookingPolicy st (ev, payload, Cancel args) = handleCancelCommand ev st args payload"
| "apply_operation bookingPolicy st (ev, payload, Move args) = handleMoveCommand ev st args payload"
| "apply_operation bookingPolicy st (ev, payload, Extend args) = handleExtendCommand bookingPolicy ev st args payload"

fun run_operations :: "BookingPolicy \<Rightarrow> state \<Rightarrow> request list \<Rightarrow> state" where
  "run_operations bookingPolicy st [] = st"
| "run_operations bookingPolicy st (r # rs) =
     run_operations bookingPolicy (snd (apply_operation bookingPolicy st r)) rs"

text \<open>The strict overlap of the stored start and end texts of two bookings, in the order
  in which the availability query compares them, and the property that no two different
  active rows of one room and one date overlap in that sense.\<close>

definition intervals_overlap :: "Booking \<Rightarrow> Booking \<Rightarrow> bool" where
  "intervals_overlap a b \<longleftrightarrow> startTime a < endTime b \<and> endTime a > startTime b"

definition stored_intervals_disjoint :: "state \<Rightarrow> bool" where
  "stored_intervals_disjoint st \<longleftrightarrow>
     (\<forall>i < length (bookings st). \<forall>j < length (bookings st).
        i \<noteq> j \<and> status (bookings st ! i) = active \<and> status (bookings st ! j) = active
        \<and> roomId (bookings st ! i) = roomId (bookings st ! j)
        \<and> date (bookings st ! i) = date (bookings st ! j)
        \<longrightarrow> \<not> intervals_overlap (bookings st ! i) (bookings st ! j))"


text \<open>
  The time a booking occupies its room, in minutes from midnight of its date: from its
  stored start time for its stored duration. Two bookings occupy the same time when they
  are active bookings of one room on one date and each starts before the other is over.
\<close>

definition occupied_from :: "Booking \<Rightarrow> int" where
  "occupied_from b = int (clock_minutes (startTime b))"

definition occupied_until :: "Booking \<Rightarrow> int" where
  "occupied_until b = occupied_from b + durationMinutes b"

definition occupy_same_time :: "Booking \<Rightarrow> Booking \<Rightarrow> bool" where
  "occupy_same_time a b \<longleftrightarrow>
     status a = active \<and> status b = active \<and> roomId a = roomId b \<and> date a = date b
     \<and> occupied_from a < occupied_until b \<and> occupied_from b < occupied_until a"

text \<open>The invariant the proofs carry: booking identifiers are unique (the UNIQUE column), and
  two active rows of one room and one date with different identifiers do not overlap.\<close>

definition store_inv :: "state \<Rightarrow> bool" where
  "store_inv st \<longleftrightarrow>
     distinct (map bookingId (bookings st)) \<and>
     (\<forall>a \<in> set (bookings st). \<forall>b \<in> set (bookings st).
        bookingId a \<noteq> bookingId b \<and> status a = active \<and> status b = active
        \<and> roomId a = roomId b \<and> date a = date b \<longrightarrow> \<not> intervals_overlap a b)"

section \<open>Concrete data for the examples\<close>

text \<open>The default policy of the configuration (quoted in DEPLOY.md), one room, two
  requesters. Day 20460 is 2026-01-07; the clock of the examples stands at 09:00 of the
  day before.\<close>

definition default_policy :: BookingPolicy where
  "default_policy = \<lparr>maxDurationMinutes = 240, minDurationMinutes = 15, bufferMinutes = 10,
     bookingHoursStart = ''08:00'', bookingHoursEnd = ''22:00'', allowedDaysAhead = 30,
     timezone = ''Asia/Seoul''\<rparr>"

definition room_A :: Room where
  "room_A = \<lparr>rid = 1, name = ''A'', displayName = ''Room A'', email = ''room-a@example.com'',
     calendarId = ''room-a@example.com'', capacity = 12, location = ''2F'', autoAccept = True\<rparr>"

definition empty_store :: state where
  "empty_store = \<lparr>rooms = [room_A], bookings = [], audit_logs = [], process_log = []\<rparr>"

definition alice :: JandiOutgoingWebhookPayload where
  "alice = \<lparr>token = ''secret'', teamName = ''team'', roomName = ''general'',
     writerName = ''Alice'', writerEmail = ''alice@example.com'', payload_text = ''room my'', data = ''my'',
     keyword = ''room'', ip = ''10.0.0.1'', payload_createdAt = ''2026-01-06T00:00:00.000Z''\<rparr>"

definition bob :: JandiOutgoingWebhookPayload where
  "bob = \<lparr>token = ''secret'', teamName = ''team'', roomName = ''general'',
     writerName = ''Bob'', writerEmail = ''bob@example.com'', payload_text = ''room my'', data = ''my'',
     keyword = ''room'', ip = ''10.0.0.2'', payload_createdAt = ''2026-01-06T00:00:00.000Z''\<rparr>"

definition env_with_id :: "string \<Rightarrow> env" where
  "env_with_id i = \<lparr>dayjs_now = (20459 * 1440 + 540) * 60000, db_now = ''2026-01-06 00:00:00'',
     generated_id = i, request_start = 1000, request_end = 1007,
     audit_db_now = ''2026-01-06 00:00:00''\<rparr>"

definition book_args :: "string \<Rightarrow> int \<Rightarrow> BookCommandArgs" where
  "book_args t n = \<lparr>book_roomName = ''A'', book_date = 20460, book_startTime = t,
     book_duration = n, book_title = ''Weekly Sync''\<rparr>"

text \<open>An active booking of room 1 on 2026-01-07 with the given identifier, requester, start,
  end and duration, as the book handler stores it, and a store with given bookings.\<close>

definition booking_of :: "string \<Rightarrow> string \<Rightarrow> string \<Rightarrow> string \<Rightarrow> int \<Rightarrow> Booking" where
  "booking_of i who s e n =
     \<lparr>bookingId = i, roomId = 1, booking_calendarId = ''room-a@example.com'', eventId = i,
      title = ''Weekly Sync'', date = 20460, startTime = s, endTime = e, durationMinutes = n,
      requestedBy = who,
      requestedByName = (if who = ''bob@example.com'' then ''Bob'' else ''Alice''),
      status = active,
      createdAt = ''2026-01-06 00:00:00'', updatedAt = ''2026-01-06 00:00:00''\<rparr>"

definition store_with :: "Booking list \<Rightarrow> state" where
  "store_with bs = \<lparr>rooms = [room_A], bookings = bs, audit_logs = [], process_log = []\<rparr>"

text \<open>The same store with another status in the rows of one identifier; used to state that
  a handler does not look at the status of the booking it is asked to change.\<close>

definition set_status :: "string \<Rightarrow> booking_status \<Rightarrow> state \<Rightarrow> state" where
  "set_status bid s st =
     st\<lparr>bookings := map (\<lambda>b. if bookingId b = bid then b\<lparr>status := s\<rparr> else b) (bookings st)\<rparr>"

text \<open>The row that \<open>logCommand\<close> hands to \<open>createAuditLog\<close>, as it is stored at the database
  time \<open>ts\<close>.\<close>

definition audit_entry ::
  "string \<Rightarrow> JandiOutgoingWebhookPayload \<Rightarrow> CommandType \<Rightarrow> CommandResult \<Rightarrow> AuditLog" where
  "audit_entry ts payload commandType result =
     \<lparr>log_userEmail = writerEmail payload,
      log_userName = writerName payload,
      log_command = payload_text payload,
      log_commandType = commandType,
      log_parameters = payload,
      log_status = (if success result then success_status else failure_status),
      log_response = message result,
      log_errorMessage = (case error result of
                            None \<Rightarrow> None
                          | Some e \<Rightarrow> (case details e of
                                        None \<Rightarrow> None
                                      | Some m \<Rightarrow> (if m = [] then None else Some m))),
      log_ipAddress = ip payload,
      log_roomName = roomName payload,
      log_timestamp = ts\<rparr>"

text \<open>Collaborators for the examples: a parser that knows the one text \<open>help\<close>, which
  \<open>parseCommand\<close> maps to the help command, and query handlers that return a text.\<close>

definition help_collaborators :: collaborators where
  "help_collaborators =
     \<lparr>parseCommand = (\<lambda>s. if s = ''help'' then ParseSuccess (HelpCommand ''help'')
                           else ParseFailure ''unknown command''),
      handleStatusCommand = (\<lambda>st args. Inr (succeeded (MsgText ''status'') None)),
      handleMyCommand = (\<lambda>st args payload. Inr (succeeded (MsgText ''my'') None)),
      handleListCommand = (\<lambda>st args. Inr (succeeded (MsgText ''list'') None))\<rparr>"

definition help_request :: JandiOutgoingWebhookPayload where
  "help_request = \<lparr>token = ''secret'', teamName = ''team'', roomName = ''general'',
     writerName = ''Alice'', writerEmail = ''alice@example.com'', payload_text = ''room help'',
     data = ''help'', keyword = ''room'', ip = ''10.0.0.1'',
     payload_createdAt = ''2026-01-06T00:00:00.000Z''\<rparr>"

text \<open>Collaborators whose parser knows the one text \<open>status\<close> and whose status
  handler throws, and a request with that text.\<close>

definition failing_status_collaborators :: collaborators where
  "failing_status_collaborators =
     \<lparr>parseCommand = (\<lambda>s. if s = ''status''
                           then ParseSuccess (StatusCommand
                                  \<lparr>status_date = Some 20459, status_timeRange = None\<rparr> ''status'')
                           else ParseFailure ''unknown command''),
      handleStatusCommand = (\<lambda>st args. Inl ''database is locked''),
      handleMyCommand = (\<lambda>st args payload. Inr (succeeded (MsgText ''my'') None)),
      handleListCommand = (\<lambda>st args. Inr (succeeded (MsgText ''list'') None))\<rparr>"

definition status_request :: JandiOutgoingWebhookPayload where
  "status_request = \<lparr>token = ''secret'', teamName = ''team'', roomName = ''general'',
     writerName = ''Alice'', writerEmail = ''alice@example.com'', payload_text = ''room status'',
     data = ''status'', keyword = ''room'', ip = ''10.0.0.1'',
     payload_createdAt = ''2026-01-06T00:00:00.000Z''\<rparr>"

section \<open>The non-overlap invariant\<close>

lemma store_inv_stored_intervals_disjoint: "store_inv st \<Longrightarrow> stored_intervals_disjoint st"
proof -
  assume inv: "store_inv st"
  let ?bs = "bookings st"
  have d: "distinct (map bookingId ?bs)" using inv by (simp add: store_inv_def)
  have ids: "bookingId (?bs ! i) \<noteq> bookingId (?bs ! j)"
    if "i < length ?bs" "j < length ?bs" "i \<noteq> j" for i j
  proof -
    show ?thesis
      using nth_eq_iff_index_eq[OF d, of i j] that by simp
  qed
  show ?thesis
    unfolding stored_intervals_disjoint_def
  proof (intro allI impI)
    fix i j
    assume i: "i < length ?bs" and j: "j < length ?bs"
      and h: "i \<noteq> j \<and> status (?bs ! i) = active \<and> status (?bs ! j) = active
        \<and> roomId (?bs ! i) = roomId (?bs ! j) \<and> date (?bs ! i) = date (?bs ! j)"
    have "?bs ! i \<in> set ?bs" "?bs ! j \<in> set ?bs" using i j by simp_all
    moreover have "bookingId (?bs ! i) \<noteq> bookingId (?bs ! j)" using ids i j h by blast
    ultimately show "\<not> intervals_overlap (?bs ! i) (?bs ! j)"
      using inv h unfolding store_inv_def by blast
  qed
qed

lemma available_no_overlap:
  assumes "checkRoomAvailability st r d s e ex" and "b \<in> set (bookings st)"
    and "roomId b = r" "date b = d" "status b = active" "exclude_clause ex b"
  shows "\<not> (startTime b < e \<and> endTime b > s)"
    and "\<not> (startTime b < e \<and> endTime b > e)"
    and "\<not> (startTime b \<ge> s \<and> endTime b \<le> e)"
  using assms unfolding checkRoomAvailability_def sql_time_condition_def
  by (auto simp: filter_empty_conv)

lemma getRoomById_rid: "getRoomById st i = Some room \<Longrightarrow> rid room = i"
  by (auto simp: getRoomById_def find_Some_iff)

lemma getBookingById_Some:
  "getBookingById st bid = Some b \<Longrightarrow> b \<in> set (bookings st) \<and> bookingId b = bid"
  by (auto simp: getBookingById_def find_Some_iff)

lemma getBookingById_unique:
  "distinct (map bookingId (bookings st)) \<Longrightarrow> getBookingById st bid = Some b \<Longrightarrow>
   x \<in> set (bookings st) \<Longrightarrow> bookingId x = bid \<Longrightarrow> x = b"
  by (metis getBookingById_Some distinct_map inj_on_eq_iff)


lemma book_inv:
  assumes "store_inv st"
  shows "store_inv (snd (handleBookCommand pol ev st args payload))"
proof (cases "getRoomByName st (book_roomName args)")
  case None
  then show ?thesis using assms by (simp add: handleBookCommand_def)
next
  case (Some room)
  let ?E = "dayjs_format_HHmm (dayjs_add_minute (dayjs_parse (book_date args) (book_startTime args)) (book_duration args))"
  have new: "\<not> (startTime b < ?E \<and> endTime b > book_startTime args)"
    if "checkRoomAvailability st (rid room) (book_date args) (book_startTime args) ?E None"
       "b \<in> set (bookings st)" "roomId b = rid room" "date b = book_date args" "status b = active" for b
    using available_no_overlap(1)[OF that(1,2,3,4,5)] by (simp add: exclude_clause_def)
  show ?thesis
    using assms Some
    apply (simp add: handleBookCommand_def Let_def createBooking_def split: option.splits if_splits)
    apply (intro conjI impI)
    apply (auto simp: store_inv_def intervals_overlap_def dest: new)
    done
qed


lemma store_inv_map:
  assumes inv: "store_inv st"
    and ident: "\<And>x. bookingId (f x) = bookingId x"
    and ok: "\<And>a b. a \<in> set (bookings st) \<Longrightarrow> b \<in> set (bookings st) \<Longrightarrow>
          bookingId a \<noteq> bookingId b \<Longrightarrow> status (f a) = active \<Longrightarrow> status (f b) = active \<Longrightarrow>
          roomId (f a) = roomId (f b) \<Longrightarrow> date (f a) = date (f b) \<Longrightarrow>
          \<not> intervals_overlap (f a) (f b)"
  shows "store_inv (st\<lparr>bookings := map f (bookings st)\<rparr>)"
proof -
  have "bookingId \<circ> f = bookingId"
    by (rule ext) (simp add: ident)
  then have d: "distinct (map bookingId (map f (bookings st)))"
    using inv by (simp add: store_inv_def)
  show ?thesis
    unfolding store_inv_def
  proof (intro conjI ballI impI)
    show "distinct (map bookingId (bookings (st\<lparr>bookings := map f (bookings st)\<rparr>)))"
      using d by simp
  next
    fix a' b'
    assume a': "a' \<in> set (bookings (st\<lparr>bookings := map f (bookings st)\<rparr>))"
      and b': "b' \<in> set (bookings (st\<lparr>bookings := map f (bookings st)\<rparr>))"
      and h: "bookingId a' \<noteq> bookingId b' \<and> status a' = active \<and> status b' = active
        \<and> roomId a' = roomId b' \<and> date a' = date b'"
    from a' obtain a where a: "a \<in> set (bookings st)" "a' = f a" by auto
    from b' obtain b where b: "b \<in> set (bookings st)" "b' = f b" by auto
    show "\<not> intervals_overlap a' b'"
      using ok[OF a(1) b(1)] h a(2) b(2) by (simp add: ident)
  qed
qed

lemma cancel_inv:
  assumes "store_inv st"
  shows "store_inv (snd (handleCancelCommand ev st args payload))"
proof -
  have "store_inv (updateBookingStatus st ts bid cancelled)" for ts bid
    unfolding updateBookingStatus_def
  proof (rule store_inv_map[OF assms])
    fix a b
    assume "a \<in> set (bookings st)" "b \<in> set (bookings st)" "bookingId a \<noteq> bookingId b"
      "status (if bookingId a = bid then a\<lparr>status := cancelled, updatedAt := ts\<rparr> else a) = active"
      "status (if bookingId b = bid then b\<lparr>status := cancelled, updatedAt := ts\<rparr> else b) = active"
      "roomId (if bookingId a = bid then a\<lparr>status := cancelled, updatedAt := ts\<rparr> else a) =
       roomId (if bookingId b = bid then b\<lparr>status := cancelled, updatedAt := ts\<rparr> else b)"
      "date (if bookingId a = bid then a\<lparr>status := cancelled, updatedAt := ts\<rparr> else a) =
       date (if bookingId b = bid then b\<lparr>status := cancelled, updatedAt := ts\<rparr> else b)"
    then show "\<not> intervals_overlap
         (if bookingId a = bid then a\<lparr>status := cancelled, updatedAt := ts\<rparr> else a)
         (if bookingId b = bid then b\<lparr>status := cancelled, updatedAt := ts\<rparr> else b)"
      using assms unfolding store_inv_def by (cases "bookingId a = bid"; cases "bookingId b = bid") auto
  qed simp
  then show ?thesis
    using assms by (simp add: handleCancelCommand_def Let_def split: option.splits)
qed

lemma move_inv:
  assumes "store_inv st"
  shows "store_inv (snd (handleMoveCommand ev st args payload))"
proof -
  have upd: "store_inv (updateBookingTime st ts bid d s e)"
    if b: "getBookingById st bid = Some booking"
      and av: "checkRoomAvailability st (roomId booking) d s e (Some bid)"
    for ts bid d s e booking
  proof -
    define f :: "Booking \<Rightarrow> Booking" where "f = (\<lambda>b. if bookingId b = bid
        then b\<lparr>date := d, startTime := s, endTime := e, updatedAt := ts\<rparr> else b)"
    have d1: "distinct (map bookingId (bookings st))" using assms by (simp add: store_inv_def)
    have same: "x = booking" if "x \<in> set (bookings st)" "bookingId x = bid" for x
      using getBookingById_unique[OF d1 b that] .
    have free: "\<not> (startTime y < e \<and> endTime y > s)"
      if "y \<in> set (bookings st)" "bookingId y \<noteq> bid" "roomId y = roomId booking" "date y = d"
         "status y = active" for y
      using available_no_overlap(1)[OF av that(1,3,4,5)] that(2) by (simp add: exclude_clause_def)
    have "store_inv (st\<lparr>bookings := map f (bookings st)\<rparr>)"
    proof (rule store_inv_map[OF assms])
      show "bookingId (f x) = bookingId x" for x by (simp add: f_def)
    next
      fix a b
      assume a: "a \<in> set (bookings st)" and b: "b \<in> set (bookings st)"
        and ne: "bookingId a \<noteq> bookingId b"
        and h: "status (f a) = active" "status (f b) = active" "roomId (f a) = roomId (f b)"
          "date (f a) = date (f b)"
      consider (A) "bookingId a = bid" "bookingId b \<noteq> bid"
        | (B) "bookingId b = bid" "bookingId a \<noteq> bid"
        | (C) "bookingId a \<noteq> bid" "bookingId b \<noteq> bid"
        using ne by auto
      then show "\<not> intervals_overlap (f a) (f b)"
      proof cases
        case A
        then have "a = booking" using same a by blast
        then show ?thesis
          using A h free[OF b A(2)] by (auto simp: f_def intervals_overlap_def)
      next
        case B
        then have "b = booking" using same b by blast
        then show ?thesis
          using B h free[OF a B(2)] by (auto simp: f_def intervals_overlap_def)
      next
        case C
        then show ?thesis
          using assms a b ne h unfolding store_inv_def by (simp add: f_def)
      qed
    qed
    then show ?thesis by (simp add: updateBookingTime_def f_def)
  qed
  show ?thesis
  proof (cases "getBookingById st (move_bookingId args)")
    case None
    then show ?thesis using assms by (simp add: handleMoveCommand_def Let_def)
  next
    case (Some booking)
    show ?thesis
    proof (cases "getRoomById st (roomId booking)")
      case None
      then show ?thesis using assms Some by (simp add: handleMoveCommand_def Let_def)
    next
      case (Some room)
      have r: "rid room = roomId booking" using getRoomById_rid[OF Some] .
      show ?thesis
        using assms \<open>getBookingById st (move_bookingId args) = Some booking\<close> Some r upd
        by (simp add: handleMoveCommand_def Let_def)
    qed
  qed
qed


lemma extend_inv:
  assumes "store_inv st"
  shows "store_inv (snd (handleExtendCommand pol ev st args payload))"
proof -
  have upd: "store_inv (updateBookingEndTime st ts bid e n)"
    if b: "getBookingById st bid = Some booking"
      and av: "checkRoomAvailability st (roomId booking) (date booking) (endTime booking) e (Some bid)"
    for ts bid e n booking
  proof -
    define f :: "Booking \<Rightarrow> Booking" where "f = (\<lambda>b. if bookingId b = bid
        then b\<lparr>endTime := e, durationMinutes := n, updatedAt := ts\<rparr> else b)"
    have d1: "distinct (map bookingId (bookings st))" using assms by (simp add: store_inv_def)
    have mem: "booking \<in> set (bookings st)" "bookingId booking = bid"
      using getBookingById_Some[OF b] by simp_all
    have same: "x = booking" if "x \<in> set (bookings st)" "bookingId x = bid" for x
      using getBookingById_unique[OF d1 b that] .
    have old: "\<not> (startTime booking < endTime y \<and> endTime booking > startTime y)"
      if "y \<in> set (bookings st)" "bookingId y \<noteq> bid" "roomId y = roomId booking"
         "date y = date booking" "status y = active" "status booking = active" for y
      using assms mem that unfolding store_inv_def intervals_overlap_def by metis
    have free: "\<not> (startTime booking < endTime y \<and> e > startTime y)"
      if y: "y \<in> set (bookings st)" "bookingId y \<noteq> bid" "roomId y = roomId booking"
         "date y = date booking" "status y = active" and ab: "status booking = active" for y
    proof -
      have ex: "exclude_clause (Some bid) y" using y(2) by (simp add: exclude_clause_def)
      note c = available_no_overlap[OF av y(1,3,4,5) ex]
      show ?thesis using c old[OF y ab] by auto
    qed
    have "store_inv (st\<lparr>bookings := map f (bookings st)\<rparr>)"
    proof (rule store_inv_map[OF assms])
      show "bookingId (f x) = bookingId x" for x by (simp add: f_def)
    next
      fix a b
      assume a: "a \<in> set (bookings st)" and b: "b \<in> set (bookings st)"
        and ne: "bookingId a \<noteq> bookingId b"
        and h: "status (f a) = active" "status (f b) = active" "roomId (f a) = roomId (f b)"
          "date (f a) = date (f b)"
      consider (A) "bookingId a = bid" "bookingId b \<noteq> bid"
        | (B) "bookingId b = bid" "bookingId a \<noteq> bid"
        | (C) "bookingId a \<noteq> bid" "bookingId b \<noteq> bid"
        using ne by auto
      then show "\<not> intervals_overlap (f a) (f b)"
      proof cases
        case A
        then have "a = booking" using same a by blast
        then show ?thesis
          using A h free[OF b A(2)] by (auto simp: f_def intervals_overlap_def)
      next
        case B
        then have "b = booking" using same b by blast
        then show ?thesis
          using B h free[OF a B(2)] by (auto simp: f_def intervals_overlap_def)
      next
        case C
        then show ?thesis
          using assms a b ne h unfolding store_inv_def by (simp add: f_def)
      qed
    qed
    then show ?thesis by (simp add: updateBookingEndTime_def f_def)
  qed
  show ?thesis
  proof (cases "getBookingById st (extend_bookingId args)")
    case None
    then show ?thesis using assms by (simp add: handleExtendCommand_def Let_def)
  next
    case (Some booking)
    show ?thesis
    proof (cases "getRoomById st (roomId booking)")
      case None
      then show ?thesis using assms Some by (simp add: handleExtendCommand_def Let_def)
    next
      case (Some room)
      have r: "rid room = roomId booking" using getRoomById_rid[OF Some] .
      show ?thesis
        using assms \<open>getBookingById st (extend_bookingId args) = Some booking\<close> Some r upd
        by (simp add: handleExtendCommand_def Let_def)
    qed
  qed
qed

lemma apply_operation_inv: "store_inv st \<Longrightarrow> store_inv (snd (apply_operation pol st r))"
proof -
  assume inv: "store_inv st"
  obtain ev payload op where r: "r = (ev, payload, op)" by (cases r) auto
  show ?thesis
    using inv by (cases op) (simp_all add: r book_inv cancel_inv move_inv extend_inv)
qed

lemma run_operations_inv: "store_inv st \<Longrightarrow> store_inv (run_operations pol st rs)"
  by (induction rs arbitrary: st) (simp_all add: apply_operation_inv)

text \<open>The stored texts of active bookings never overlap in the sense of the availability
  query, in any store that requests produce from a store without bookings.\<close>

lemma stored_intervals_disjoint_invariant:
  "bookings st = [] \<Longrightarrow> stored_intervals_disjoint (run_operations bookingPolicy st rs)"
  by (rule store_inv_stored_intervals_disjoint, rule run_operations_inv) (simp add: store_inv_def)

section \<open>Lookups after an update\<close>

lemma find_map_same_key:
  assumes "\<And>x. P (f x) = P x"
  shows "find P (map f xs) = map_option f (find P xs)"
  by (induction xs) (simp_all add: assms)

lemma getBookingById_map:
  assumes "\<And>x. bookingId (f x) = bookingId x"
  shows "getBookingById (st\<lparr>bookings := map f (bookings st)\<rparr>) i = map_option f (getBookingById st i)"
  unfolding getBookingById_def by (simp add: find_map_same_key assms)

lemma getBookingById_updateBookingEndTime:
  "getBookingById (updateBookingEndTime st ts bid e n) i =
     map_option (\<lambda>b. if bookingId b = bid
        then b\<lparr>endTime := e, durationMinutes := n, updatedAt := ts\<rparr> else b) (getBookingById st i)"
  unfolding updateBookingEndTime_def by (rule getBookingById_map) simp

lemma getBookingById_updateBookingTime:
  "getBookingById (updateBookingTime st ts bid d s e) i =
     map_option (\<lambda>b. if bookingId b = bid
        then b\<lparr>date := d, startTime := s, endTime := e, updatedAt := ts\<rparr> else b) (getBookingById st i)"
  unfolding updateBookingTime_def by (rule getBookingById_map) simp

lemma getBookingById_other:
  assumes "i \<noteq> bid"
  shows "map_option (\<lambda>b. if bookingId b = bid then g b else b) (getBookingById st i) = getBookingById st i"
proof (cases "getBookingById st i")
  case None
  then show ?thesis by simp
next
  case (Some b)
  then have "bookingId b = i" by (simp add: getBookingById_Some)
  then show ?thesis using Some assms by simp
qed

lemma find_append_fresh:
  assumes "\<forall>x \<in> set xs. \<not> P x" and "P y"
  shows "find P (xs @ [y]) = Some y"
  using assms by (induction xs) simp_all

section \<open>What the handlers check and write\<close>

text \<open>What a successful book command has checked and written.\<close>

lemma book_success:
  assumes "handleBookCommand bookingPolicy ev st args payload = (r, st')" and "success r"
  shows "\<exists>room. getRoomByName st (book_roomName args) = Some room
      \<and> \<not> dayjs_isBefore (dayjs_parse (book_date args) (book_startTime args)) (Some (dayjs_now ev))
      \<and> \<not> (js_less (dayjs_hour (dayjs_parse (book_date args) (book_startTime args)))
                  (policy_hour (bookingHoursStart bookingPolicy))
            \<or> js_less (policy_hour (bookingHoursEnd bookingPolicy))
                  (dayjs_hour (dayjs_add_minute (dayjs_parse (book_date args) (book_startTime args))
                     (book_duration args))))
      \<and> checkRoomAvailability st (rid room) (book_date args) (book_startTime args)
            (dayjs_format_HHmm (dayjs_add_minute (dayjs_parse (book_date args) (book_startTime args))
               (book_duration args))) None
      \<and> generated_id ev \<notin> set (map bookingId (bookings st))
      \<and> st' = st\<lparr>bookings := bookings st @
            [\<lparr>bookingId = generated_id ev, roomId = rid room, booking_calendarId = calendarId room,
              eventId = generated_id ev, title = book_title args, date = book_date args,
              startTime = book_startTime args,
              endTime = dayjs_format_HHmm (dayjs_add_minute
                 (dayjs_parse (book_date args) (book_startTime args)) (book_duration args)),
              durationMinutes = book_duration args, requestedBy = writerEmail payload,
              requestedByName = writerName payload, status = active,
              createdAt = db_now ev, updatedAt = db_now ev\<rparr>]\<rparr>"
proof (cases "getRoomByName st (book_roomName args)")
  case None
  then show ?thesis using assms by (auto simp: handleBookCommand_def failure_def)
next
  case (Some room)
  show ?thesis
    using assms Some
    by (auto simp: handleBookCommand_def Let_def failure_def createBooking_def
        split: if_splits)
qed


lemma book_rejects_past_start:
  assumes "getRoomByName st (book_roomName args) = Some room"
    and "dayjs_isBefore (dayjs_parse (book_date args) (book_startTime args)) (Some (dayjs_now ev))"
  shows "handleBookCommand bookingPolicy ev st args payload = (failure PAST_TIME MsgPastTime, st)"
  using assms by (simp add: handleBookCommand_def Let_def)

lemma move_fails_or_succeeds:
  "success (fst (handleMoveCommand ev st args payload))
   \<or> snd (handleMoveCommand ev st args payload) = st"
  by (simp add: handleMoveCommand_def Let_def succeeded_def split: option.splits)

lemma extend_fails_or_succeeds:
  "success (fst (handleExtendCommand bookingPolicy ev st args payload))
   \<or> snd (handleExtendCommand bookingPolicy ev st args payload) = st"
  by (simp add: handleExtendCommand_def Let_def succeeded_def split: option.splits)

lemma getBookingById_set_status:
  "getBookingById (set_status bid s st) i =
     map_option (\<lambda>b. if bookingId b = bid then b\<lparr>status := s\<rparr> else b) (getBookingById st i)"
  unfolding set_status_def by (rule getBookingById_map) simp

lemma getRoomById_set_status: "getRoomById (set_status bid s st) i = getRoomById st i"
  by (simp add: set_status_def getRoomById_def)

lemma checkRoomAvailability_set_status:
  assumes "bid \<noteq> []"
  shows "checkRoomAvailability (set_status bid s st) r d t e (Some bid) =
         checkRoomAvailability st r d t e (Some bid)"
proof -
  let ?f = "\<lambda>b. if bookingId b = bid then b\<lparr>status := s\<rparr> else b"
  let ?P = "\<lambda>b. roomId b = r \<and> date b = d \<and> status b = active \<and> sql_time_condition b t e
                \<and> exclude_clause (Some bid) b"
  have "?P (?f b) = ?P b" for b
    using assms by (simp add: exclude_clause_def)
  then have "filter ?P (map ?f (bookings st)) = map ?f (filter ?P (bookings st))"
    by (simp add: filter_map comp_def)
  then show ?thesis
    by (simp add: checkRoomAvailability_def set_status_def)
qed

lemma set_status_updateBookingTime:
  "set_status bid s (updateBookingTime st ts bid d t e) = updateBookingTime (set_status bid s st) ts bid d t e"
  by (simp add: set_status_def updateBookingTime_def)

lemma set_status_updateBookingEndTime:
  "set_status bid s (updateBookingEndTime st ts bid e n) = updateBookingEndTime (set_status bid s st) ts bid e n"
  by (simp add: set_status_def updateBookingEndTime_def)

lemma move_ignores_status:
  assumes "move_bookingId args \<noteq> []"
  shows "handleMoveCommand ev (set_status (move_bookingId args) s st) args payload =
         (fst (handleMoveCommand ev st args payload),
          set_status (move_bookingId args) s (snd (handleMoveCommand ev st args payload)))"
proof (cases "getBookingById st (move_bookingId args)")
  case None
  then show ?thesis
    by (simp add: handleMoveCommand_def Let_def getBookingById_set_status)
next
  case (Some booking)
  have id: "bookingId booking = move_bookingId args"
    using Some by (simp add: getBookingById_Some)
  show ?thesis
  proof (cases "getRoomById st (roomId booking)")
    case None
    then show ?thesis
      using Some id
      by (simp add: handleMoveCommand_def Let_def getBookingById_set_status getRoomById_set_status)
  next
    case (Some room)
    then show ?thesis
      using \<open>getBookingById st (move_bookingId args) = Some booking\<close> id assms
      by (simp add: handleMoveCommand_def Let_def getBookingById_set_status getRoomById_set_status
          checkRoomAvailability_set_status set_status_updateBookingTime)
  qed
qed

lemma extend_ignores_status:
  assumes "extend_bookingId args \<noteq> []"
  shows "handleExtendCommand bookingPolicy ev (set_status (extend_bookingId args) s st) args payload =
         (fst (handleExtendCommand bookingPolicy ev st args payload),
          set_status (extend_bookingId args) s (snd (handleExtendCommand bookingPolicy ev st args payload)))"
proof (cases "getBookingById st (extend_bookingId args)")
  case None
  then show ?thesis
    by (simp add: handleExtendCommand_def Let_def getBookingById_set_status)
next
  case (Some booking)
  have id: "bookingId booking = extend_bookingId args"
    using Some by (simp add: getBookingById_Some)
  show ?thesis
  proof (cases "getRoomById st (roomId booking)")
    case None
    then show ?thesis
      using Some id
      by (simp add: handleExtendCommand_def Let_def getBookingById_set_status getRoomById_set_status)
  next
    case (Some room)
    then show ?thesis
      using \<open>getBookingById st (extend_bookingId args) = Some booking\<close> id assms
      by (simp add: handleExtendCommand_def Let_def getBookingById_set_status getRoomById_set_status
          checkRoomAvailability_set_status set_status_updateBookingEndTime)
  qed
qed

lemma move_keeps_status:
  assumes "getBookingById st (move_bookingId args) = Some booking"
  shows "success (fst (handleMoveCommand ev st args payload)) \<longrightarrow>
         getBookingById (snd (handleMoveCommand ev st args payload)) (move_bookingId args) =
           Some (booking\<lparr>date := move_date args, startTime := move_startTime args,
                   endTime := dayjs_format_HHmm (dayjs_add_minute
                      (dayjs_parse (move_date args) (move_startTime args)) (durationMinutes booking)),
                   updatedAt := db_now ev\<rparr>)"
proof -
  have id: "bookingId booking = move_bookingId args"
    using assms(1) by (simp add: getBookingById_Some)
  show ?thesis
    using assms id
    by (simp add: handleMoveCommand_def Let_def failure_def getBookingById_updateBookingTime
        split: option.splits)
qed

lemma extend_keeps_status:
  assumes "getBookingById st (extend_bookingId args) = Some booking"
  shows "success (fst (handleExtendCommand bookingPolicy ev st args payload)) \<longrightarrow>
         getBookingById (snd (handleExtendCommand bookingPolicy ev st args payload)) (extend_bookingId args) =
           Some (booking\<lparr>endTime := dayjs_format_HHmm (dayjs_add_minute
                      (dayjs_parse (date booking) (endTime booking)) (extend_additionalMinutes args)),
                   durationMinutes := durationMinutes booking + extend_additionalMinutes args,
                   updatedAt := db_now ev\<rparr>)"
proof -
  have id: "bookingId booking = extend_bookingId args"
    using assms(1) by (simp add: getBookingById_Some)
  show ?thesis
    using assms id
    by (simp add: handleExtendCommand_def Let_def failure_def getBookingById_updateBookingEndTime
        split: option.splits)
qed

lemma audit_logs_logCommand:
  "audit_logs (logCommand ev st payload commandType result t0) =
     audit_logs st @ [audit_entry (audit_db_now ev) payload commandType result]"
  by (simp add: logCommand_def createAuditLog_def audit_entry_def Let_def split: option.splits)

lemma process_log_logCommand:
  "process_log (logCommand ev st payload commandType result t0) =
     process_log st @ [LogCompleted (writerEmail payload) commandType (success result) (request_end ev - t0)]"
  by (simp add: logCommand_def createAuditLog_def Let_def)

lemma audit_logs_book: "audit_logs (snd (handleBookCommand bookingPolicy ev st args payload)) = audit_logs st"
  by (simp add: handleBookCommand_def Let_def createBooking_def split: option.splits)

lemma audit_logs_cancel: "audit_logs (snd (handleCancelCommand ev st args payload)) = audit_logs st"
  by (simp add: handleCancelCommand_def Let_def updateBookingStatus_def split: option.splits)

lemma audit_logs_move: "audit_logs (snd (handleMoveCommand ev st args payload)) = audit_logs st"
  by (simp add: handleMoveCommand_def Let_def updateBookingTime_def split: option.splits)

lemma audit_logs_extend: "audit_logs (snd (handleExtendCommand bookingPolicy ev st args payload)) = audit_logs st"
  by (simp add: handleExtendCommand_def Let_def updateBookingEndTime_def split: option.splits)

lemma audit_logs_caught: "audit_logs (snd (caught st commandType r)) = audit_logs st"
  by (simp add: caught_def split: sum.splits)

text \<open>\<open>handleCommand\<close> ends in \<open>logCommand\<close>, called once, on a store whose audit log is the
  one it started with.\<close>

lemma handleCommand_shape:
  "\<exists>result commandType st1.
     handleCommand co bookingPolicy ev st payload =
       (formatResponse result, logCommand ev st1 payload commandType result (request_start ev))
     \<and> audit_logs st1 = audit_logs st"
proof (cases "parseCommand co (data payload)")
  case (ParseFailure e)
  define st0 where "st0 = st\<lparr>process_log := process_log st @
                   [LogReceived (writerEmail payload) (data payload) (roomName payload)]\<rparr>"
  define result where "result = \<lparr>success = False, message = MsgParseError e, result_data = None,
                            error = Some \<lparr>code = PARSE_ERROR, details = None\<rparr>\<rparr>"
  have "audit_logs st0 = audit_logs st" by (simp add: st0_def)
  moreover have "handleCommand co bookingPolicy ev st payload =
       (formatResponse result, logCommand ev st0 payload help_cmd result (request_start ev))"
    using ParseFailure by (simp add: handleCommand_def Let_def st0_def result_def)
  ultimately show ?thesis by blast
next
  case (ParseSuccess command)
  define st0 where "st0 = st\<lparr>process_log := process_log st @
                   [LogReceived (writerEmail payload) (data payload) (roomName payload)]\<rparr>"
  have a0: "audit_logs st0 = audit_logs st" by (simp add: st0_def)
  define step where "step =
                    (case command of
                       HelpCommand _ \<Rightarrow> (succeeded MsgHelp None, st0)
                     | StatusCommand args _ \<Rightarrow> caught st0 status_cmd (handleStatusCommand co st0 args)
                     | BookCommand args _ \<Rightarrow> handleBookCommand bookingPolicy ev st0 args payload
                     | CancelCommand args _ \<Rightarrow> handleCancelCommand ev st0 args payload
                     | MyCommand args _ \<Rightarrow> caught st0 my_cmd (handleMyCommand co st0 args payload)
                     | ListCommand args _ \<Rightarrow> caught st0 list_cmd (handleListCommand co st0 args)
                     | MoveCommand args _ \<Rightarrow> handleMoveCommand ev st0 args payload
                     | ExtendCommand args _ \<Rightarrow> handleExtendCommand bookingPolicy ev st0 args payload)"
  have "audit_logs (snd step) = audit_logs st"
    unfolding step_def
    by (cases command)
      (simp_all add: a0 audit_logs_book audit_logs_cancel audit_logs_move audit_logs_extend
        audit_logs_caught)
  moreover have "handleCommand co bookingPolicy ev st payload =
       (formatResponse (fst step), logCommand ev (snd step) payload (command_type command) (fst step) (request_start ev))"
    unfolding handleCommand_def Let_def step_def st0_def
    using ParseSuccess by (simp add: split_beta)
  ultimately show ?thesis by blast
qed


lemma handlers_ignore_request_clock:
  "handleBookCommand bookingPolicy (ev\<lparr>request_start := t0, request_end := t1\<rparr>) st bargs payload =
     handleBookCommand bookingPolicy ev st bargs payload"
  "handleCancelCommand (ev\<lparr>request_start := t0, request_end := t1\<rparr>) st cargs payload =
     handleCancelCommand ev st cargs payload"
  "handleMoveCommand (ev\<lparr>request_start := t0, request_end := t1\<rparr>) st margs payload =
     handleMoveCommand ev st margs payload"
  "handleExtendCommand bookingPolicy (ev\<lparr>request_start := t0, request_end := t1\<rparr>) st eargs payload =
     handleExtendCommand bookingPolicy ev st eargs payload"
  by (simp_all add: handleBookCommand_def handleCancelCommand_def handleMoveCommand_def
      handleExtendCommand_def Let_def cong: option.case_cong if_cong)

lemma audit_ignores_request_clock:
  "audit_logs (snd (handleCommand co bookingPolicy (ev\<lparr>request_start := t0, request_end := t1\<rparr>) st payload)) =
   audit_logs (snd (handleCommand co bookingPolicy ev st payload))"
proof (cases "parseCommand co (data payload)")
  case (ParseFailure e)
  then show ?thesis
    by (simp add: handleCommand_def Let_def audit_logs_logCommand)
next
  case (ParseSuccess command)
  then show ?thesis
    by (cases command)
      (simp_all add: handleCommand_def Let_def split_beta audit_logs_logCommand
        handlers_ignore_request_clock)
qed

text \<open>The definitions that evaluate a concrete request.\<close>

lemmas eval_defs = handleBookCommand_def handleMoveCommand_def handleExtendCommand_def handleCancelCommand_def
  default_policy_def env_with_id_def empty_store_def room_A_def alice_def bob_def book_args_def
  getRoomByName_def getRoomById_def getBookingById_def sqlite_lower_def sqlite_lower_char_def
  dayjs_format_HHmm_def dayjs_add_minute_def dayjs_parse_def is_digit_def digit_value_def pad2_def
  dayjs_isBefore_def dayjs_hour_def policy_hour_def js_parseInt_def js_less_def
  checkRoomAvailability_def sql_time_condition_def exclude_clause_def
  createBooking_def updateBookingTime_def updateBookingEndTime_def updateBookingStatus_def
  Let_def succeeded_def failure_def store_with_def booking_of_def set_status_def

section \<open>Two bookings at the same time\<close>

text \<open>
  Claim C1. For every room and every date the intervals of the active bookings are pairwise
  non-overlapping, in every store that book, cancel, move and extend requests produce from
  a store with no bookings. The code does not keep this: under the default policy, after
  Alice's booking of room A on 2026-01-07 at 23:30 for 60 minutes, Bob's booking of the
  same room and date at 23:45 for 30 minutes succeeds as well, and both are active. The
  second window is stored as 23:45 to 00:15 and the first as 23:30 to 00:30, and the
  availability query compares these texts, none of whose three conditions holds. (On the
  stored texts alone the property holds, lemma \<open>stored_intervals_disjoint_invariant\<close>;
  it says that bookings are disjoint in time only when every stored end is after its
  start.)
\<close>

theorem double_booking_across_midnight:
  "bookings (run_operations default_policy empty_store
      [(env_with_id ''R-1'', alice, Book (book_args ''23:30'' 60)),
       (env_with_id ''R-2'', bob, Book (book_args ''23:45'' 30))]) =
     [booking_of ''R-1'' ''alice@example.com'' ''23:30'' ''00:30'' 60,
      booking_of ''R-2'' ''bob@example.com'' ''23:45'' ''00:15'' 30]
   \<and> occupy_same_time (booking_of ''R-1'' ''alice@example.com'' ''23:30'' ''00:30'' 60)
        (booking_of ''R-2'' ''bob@example.com'' ''23:45'' ''00:15'' 30)"
  by (simp add: occupy_same_time_def occupied_from_def occupied_until_def eval_defs)

section \<open>The availability check\<close>

















section \<open>Bookings across midnight\<close>

text \<open>
  Claim C3. Every booking record that a successful book command produces has its end time
  after its start time, both within the day of its date field, also when start plus
  duration passes midnight. The code does not keep this: under the default policy
  (08:00 to 22:00, 15 to 240 minutes) the command for room A on 2026-01-07 at 23:30 for 60
  minutes, whose start time the parser's pattern accepts and whose duration is within the
  policy bounds, succeeds and stores the end time 00:30, which is before the start time
  23:30. The business-hours check compares the hour of the end (0 after the wrap) with the
  closing hour and the hour of the start with the opening hour only.
\<close>

theorem book_across_midnight:
  "parseBookCommand_accepts default_policy ''23:30'' 60
   \<and> handleBookCommand default_policy (env_with_id ''R-1'') empty_store (book_args ''23:30'' 60) alice =
       (succeeded (MsgBooked ''R-1'' ''Room A'' 20460 ''23:30'' ''00:30'' 60 ''Weekly Sync'' ''Alice'') (Some ''R-1''),
        store_with [booking_of ''R-1'' ''alice@example.com'' ''23:30'' ''00:30'' 60])
   \<and> \<not> (startTime (booking_of ''R-1'' ''alice@example.com'' ''23:30'' ''00:30'' 60)
          < endTime (booking_of ''R-1'' ''alice@example.com'' ''23:30'' ''00:30'' 60))"
  by (simp add: parseBookCommand_accepts_def eval_defs)

section \<open>The past-time rule\<close>

text \<open>
  Claim C4. A book or a move whose proposed start instant is strictly before the current
  instant fails with a past-time failure, and no booking is created or changed. The book
  handler has the check (lemma \<open>book_rejects_past_start\<close>); the move handler has none:
  with the clock at 2026-01-06 09:00, the owner's move of a booking to 2025-12-28 10:00
  succeeds and rewrites the stored date and times.
\<close>

theorem move_into_the_past:
  "dayjs_isBefore (dayjs_parse 20450 ''10:00'') (Some (dayjs_now (env_with_id ''R-2'')))
   \<and> handleMoveCommand (env_with_id ''R-2'')
        (store_with [booking_of ''R-1'' ''alice@example.com'' ''14:00'' ''15:00'' 60])
        \<lparr>move_bookingId = ''R-1'', move_date = 20450, move_startTime = ''10:00''\<rparr> alice =
       (succeeded (MsgMoved ''R-1'' ''Room A'' 20460 ''14:00'' ''15:00'' 20450 ''10:00'' ''11:00'') None,
        store_with [(booking_of ''R-1'' ''alice@example.com'' ''10:00'' ''11:00'' 60)\<lparr>date := 20450\<rparr>])"
  by (simp add: eval_defs)

section \<open>Extending a booking\<close>

text \<open>
  Claim C5. A successful extend checks availability over the window from the old end time
  to the new end time, with the booking's own identifier excluded, and then rewrites the
  end time and sets the duration to the old duration plus the additional minutes. The code
  does not keep the first part when the new end passes midnight. Under the default policy
  Alice books room A on 2026-01-07 at 20:00 for 60 minutes and Bob books it at 21:30 for
  30 minutes. Alice's extend by 45 minutes is refused with a conflict, as the claim says.
  Her extend by 180 minutes (240 in total, the maximum) succeeds: the new end is written
  as 00:00, the window handed to \<open>checkRoomAvailability\<close> is 21:00 to 00:00, and none of
  the three conditions of the query holds for Bob's row 21:30 to 22:00, which lies inside
  the time by which the booking is extended. Alice's booking, now stored 20:00 to 00:00
  with duration 240, and Bob's are both active at 21:30.
\<close>

theorem extend_across_midnight:
  "run_operations default_policy empty_store
      [(env_with_id ''R-1'', alice, Book (book_args ''20:00'' 60)),
       (env_with_id ''R-2'', bob, Book (book_args ''21:30'' 30))] =
     store_with [booking_of ''R-1'' ''alice@example.com'' ''20:00'' ''21:00'' 60,
                 booking_of ''R-2'' ''bob@example.com'' ''21:30'' ''22:00'' 30]
   \<and> handleExtendCommand default_policy (env_with_id ''R-9'')
        (store_with [booking_of ''R-1'' ''alice@example.com'' ''20:00'' ''21:00'' 60,
                     booking_of ''R-2'' ''bob@example.com'' ''21:30'' ''22:00'' 30])
        \<lparr>extend_bookingId = ''R-1'', extend_additionalMinutes = 45\<rparr> alice =
       (failure CONFLICT MsgExtendConflict,
        store_with [booking_of ''R-1'' ''alice@example.com'' ''20:00'' ''21:00'' 60,
                    booking_of ''R-2'' ''bob@example.com'' ''21:30'' ''22:00'' 30])
   \<and> handleExtendCommand default_policy (env_with_id ''R-9'')
        (store_with [booking_of ''R-1'' ''alice@example.com'' ''20:00'' ''21:00'' 60,
                     booking_of ''R-2'' ''bob@example.com'' ''21:30'' ''22:00'' 30])
        \<lparr>extend_bookingId = ''R-1'', extend_additionalMinutes = 180\<rparr> alice =
       (succeeded (MsgExtended ''R-1'' ''Room A'' 20460 ''20:00'' ''00:00'' 180 240) None,
        store_with [booking_of ''R-1'' ''alice@example.com'' ''20:00'' ''00:00'' 240,
                    booking_of ''R-2'' ''bob@example.com'' ''21:30'' ''22:00'' 30])
   \<and> occupy_same_time (booking_of ''R-1'' ''alice@example.com'' ''20:00'' ''00:00'' 240)
        (booking_of ''R-2'' ''bob@example.com'' ''21:30'' ''22:00'' 30)"
  by (simp add: occupy_same_time_def occupied_from_def occupied_until_def eval_defs)

section \<open>Failed moves and extensions\<close>

text \<open>
  Claim C6. Whenever a move or an extend request fails, the store is left as it was: every
  field of every booking keeps its value. In particular an extend whose new total duration
  exceeds \<open>maxDurationMinutes\<close> fails with MAX_DURATION, and a move or an extend whose
  requested window is not available fails with CONFLICT, each without any update.
\<close>

theorem failed_move_or_extend_changes_nothing:
  "(\<not> success (fst (handleMoveCommand ev st margs payload)) \<longrightarrow>
      snd (handleMoveCommand ev st margs payload) = st)
   \<and> (\<not> success (fst (handleExtendCommand bookingPolicy ev st eargs payload)) \<longrightarrow>
      snd (handleExtendCommand bookingPolicy ev st eargs payload) = st)
   \<and> (\<forall>booking room.
        getBookingById st (extend_bookingId eargs) = Some booking
        \<and> requestedBy booking = writerEmail payload
        \<and> getRoomById st (roomId booking) = Some room
        \<and> durationMinutes booking + extend_additionalMinutes eargs > maxDurationMinutes bookingPolicy
        \<longrightarrow> handleExtendCommand bookingPolicy ev st eargs payload =
              (failure MAX_DURATION (MsgMaxDuration (maxDurationMinutes bookingPolicy)), st))
   \<and> (\<forall>booking room.
        getBookingById st (extend_bookingId eargs) = Some booking
        \<and> requestedBy booking = writerEmail payload
        \<and> getRoomById st (roomId booking) = Some room
        \<and> durationMinutes booking + extend_additionalMinutes eargs \<le> maxDurationMinutes bookingPolicy
        \<and> \<not> checkRoomAvailability st (roomId booking) (date booking) (endTime booking)
              (dayjs_format_HHmm (dayjs_add_minute (dayjs_parse (date booking) (endTime booking))
                 (extend_additionalMinutes eargs)))
              (Some (extend_bookingId eargs))
        \<longrightarrow> handleExtendCommand bookingPolicy ev st eargs payload =
              (failure CONFLICT MsgExtendConflict, st))
   \<and> (\<forall>booking room.
        getBookingById st (move_bookingId margs) = Some booking
        \<and> requestedBy booking = writerEmail payload
        \<and> getRoomById st (roomId booking) = Some room
        \<and> \<not> checkRoomAvailability st (roomId booking) (move_date margs) (move_startTime margs)
              (dayjs_format_HHmm (dayjs_add_minute (dayjs_parse (move_date margs) (move_startTime margs))
                 (durationMinutes booking)))
              (Some (move_bookingId margs))
        \<longrightarrow> handleMoveCommand ev st margs payload = (failure CONFLICT MsgMoveConflict, st))"
proof (intro conjI allI impI)
  show "snd (handleMoveCommand ev st margs payload) = st"
    if "\<not> success (fst (handleMoveCommand ev st margs payload))"
    using that move_fails_or_succeeds by blast
  show "snd (handleExtendCommand bookingPolicy ev st eargs payload) = st"
    if "\<not> success (fst (handleExtendCommand bookingPolicy ev st eargs payload))"
    using that extend_fails_or_succeeds by blast
next
  fix booking room
  assume "getBookingById st (extend_bookingId eargs) = Some booking
        \<and> requestedBy booking = writerEmail payload
        \<and> getRoomById st (roomId booking) = Some room
        \<and> durationMinutes booking + extend_additionalMinutes eargs > maxDurationMinutes bookingPolicy"
  then show "handleExtendCommand bookingPolicy ev st eargs payload =
              (failure MAX_DURATION (MsgMaxDuration (maxDurationMinutes bookingPolicy)), st)"
    by (simp add: handleExtendCommand_def Let_def)
next
  fix booking room
  assume h: "getBookingById st (extend_bookingId eargs) = Some booking
        \<and> requestedBy booking = writerEmail payload
        \<and> getRoomById st (roomId booking) = Some room
        \<and> durationMinutes booking + extend_additionalMinutes eargs \<le> maxDurationMinutes bookingPolicy
        \<and> \<not> checkRoomAvailability st (roomId booking) (date booking) (endTime booking)
              (dayjs_format_HHmm (dayjs_add_minute (dayjs_parse (date booking) (endTime booking))
                 (extend_additionalMinutes eargs)))
              (Some (extend_bookingId eargs))"
  then have "rid room = roomId booking" using getRoomById_rid by blast
  with h show "handleExtendCommand bookingPolicy ev st eargs payload =
              (failure CONFLICT MsgExtendConflict, st)"
    by (simp add: handleExtendCommand_def Let_def)
next
  fix booking room
  assume h: "getBookingById st (move_bookingId margs) = Some booking
        \<and> requestedBy booking = writerEmail payload
        \<and> getRoomById st (roomId booking) = Some room
        \<and> \<not> checkRoomAvailability st (roomId booking) (move_date margs) (move_startTime margs)
              (dayjs_format_HHmm (dayjs_add_minute (dayjs_parse (move_date margs) (move_startTime margs))
                 (durationMinutes booking)))
              (Some (move_bookingId margs))"
  then have "rid room = roomId booking" using getRoomById_rid by blast
  with h show "handleMoveCommand ev st margs payload = (failure CONFLICT MsgMoveConflict, st)"
    by (simp add: handleMoveCommand_def Let_def)
qed

theorem failed_move_or_extend_changes_nothing_witness:
  "handleExtendCommand default_policy (env_with_id ''R-9'')
      (store_with [booking_of ''R-1'' ''alice@example.com'' ''14:00'' ''15:00'' 60,
                   booking_of ''R-2'' ''bob@example.com'' ''15:30'' ''16:30'' 60])
      \<lparr>extend_bookingId = ''R-1'', extend_additionalMinutes = 200\<rparr> alice =
     (failure MAX_DURATION (MsgMaxDuration 240),
      store_with [booking_of ''R-1'' ''alice@example.com'' ''14:00'' ''15:00'' 60,
                  booking_of ''R-2'' ''bob@example.com'' ''15:30'' ''16:30'' 60])
   \<and> handleExtendCommand default_policy (env_with_id ''R-9'')
      (store_with [booking_of ''R-1'' ''alice@example.com'' ''14:00'' ''15:00'' 60,
                   booking_of ''R-2'' ''bob@example.com'' ''15:30'' ''16:30'' 60])
      \<lparr>extend_bookingId = ''R-1'', extend_additionalMinutes = 45\<rparr> alice =
     (failure CONFLICT MsgExtendConflict,
      store_with [booking_of ''R-1'' ''alice@example.com'' ''14:00'' ''15:00'' 60,
                  booking_of ''R-2'' ''bob@example.com'' ''15:30'' ''16:30'' 60])
   \<and> handleMoveCommand (env_with_id ''R-9'')
      (store_with [booking_of ''R-1'' ''alice@example.com'' ''14:00'' ''15:00'' 60,
                   booking_of ''R-2'' ''bob@example.com'' ''15:30'' ''16:30'' 60])
      \<lparr>move_bookingId = ''R-1'', move_date = 20460, move_startTime = ''16:00''\<rparr> alice =
     (failure CONFLICT MsgMoveConflict,
      store_with [booking_of ''R-1'' ''alice@example.com'' ''14:00'' ''15:00'' 60,
                  booking_of ''R-2'' ''bob@example.com'' ''15:30'' ''16:30'' 60])"
proof -
  let ?S = "store_with [booking_of ''R-1'' ''alice@example.com'' ''14:00'' ''15:00'' 60,
                        booking_of ''R-2'' ''bob@example.com'' ''15:30'' ''16:30'' 60]"
  let ?B = "booking_of ''R-1'' ''alice@example.com'' ''14:00'' ''15:00'' 60"
  let ?m = "\<lparr>move_bookingId = ''R-1'', move_date = 20460, move_startTime = ''16:00''\<rparr>"
  let ?long = "\<lparr>extend_bookingId = ''R-1'', extend_additionalMinutes = 200\<rparr>"
  let ?short = "\<lparr>extend_bookingId = ''R-1'', extend_additionalMinutes = 45\<rparr>"
  have found: "getBookingById ?S ''R-1'' = Some ?B" "requestedBy ?B = writerEmail alice"
    "getRoomById ?S (roomId ?B) = Some room_A"
    by (simp_all add: eval_defs)
  have too_long: "durationMinutes ?B + extend_additionalMinutes ?long > maxDurationMinutes default_policy"
    by (simp add: eval_defs)
  have fits: "durationMinutes ?B + extend_additionalMinutes ?short \<le> maxDurationMinutes default_policy"
    by (simp add: eval_defs)
  have taken: "\<not> checkRoomAvailability ?S (roomId ?B) (date ?B) (endTime ?B)
              (dayjs_format_HHmm (dayjs_add_minute (dayjs_parse (date ?B) (endTime ?B))
                 (extend_additionalMinutes ?short)))
              (Some (extend_bookingId ?short))"
    by (simp add: eval_defs)
  have taken': "\<not> checkRoomAvailability ?S (roomId ?B) (move_date ?m) (move_startTime ?m)
              (dayjs_format_HHmm (dayjs_add_minute (dayjs_parse (move_date ?m) (move_startTime ?m))
                 (durationMinutes ?B)))
              (Some (move_bookingId ?m))"
    by (simp add: eval_defs)
  note long = failed_move_or_extend_changes_nothing[of "env_with_id ''R-9''" ?S ?m alice
      default_policy ?long]
  note short = failed_move_or_extend_changes_nothing[of "env_with_id ''R-9''" ?S ?m alice
      default_policy ?short]
  have 1: "handleExtendCommand default_policy (env_with_id ''R-9'') ?S ?long alice =
      (failure MAX_DURATION (MsgMaxDuration (maxDurationMinutes default_policy)), ?S)"
    using long found too_long by simp
  have 2: "handleExtendCommand default_policy (env_with_id ''R-9'') ?S ?short alice =
      (failure CONFLICT MsgExtendConflict, ?S)"
    using short found fits taken by simp
  have 3: "handleMoveCommand (env_with_id ''R-9'') ?S ?m alice = (failure CONFLICT MsgMoveConflict, ?S)"
    using short found taken' by simp
  show ?thesis
    using 1 2 3 by (simp add: default_policy_def)
qed

section \<open>Booking again after a cancellation\<close>

text \<open>
  Claim C7, as amended. When a book command has succeeded and its requester then cancels
  that booking, the cancellation succeeds, and a following book command for the same room,
  date, start time and duration succeeds provided that the start is not before the clock
  at that moment and that the generated identifier is not one already stored.
\<close>

theorem rebook_after_cancel:
  assumes booked: "handleBookCommand bookingPolicy ev1 st args payload = (r1, st1)" "success r1"
    and cancelled: "handleCancelCommand ev2 st1 \<lparr>cancel_bookingId = generated_id ev1\<rparr> payload2 = (r2, st2)"
    and requester: "writerEmail payload2 = writerEmail payload"
    and window: "book_roomName args' = book_roomName args" "book_date args' = book_date args"
      "book_startTime args' = book_startTime args" "book_duration args' = book_duration args"
    and clock: "\<not> dayjs_isBefore (dayjs_parse (book_date args) (book_startTime args)) (Some (dayjs_now ev3))"
    and fresh: "generated_id ev3 \<notin> set (map bookingId (bookings st2))"
  shows "success r2 \<and> success (fst (handleBookCommand bookingPolicy ev3 st2 args' payload3))"
proof -
  let ?E = "dayjs_format_HHmm (dayjs_add_minute (dayjs_parse (book_date args) (book_startTime args))
               (book_duration args))"
  from book_success[OF booked] obtain room where
    room: "getRoomByName st (book_roomName args) = Some room"
    and hours: "\<not> (js_less (dayjs_hour (dayjs_parse (book_date args) (book_startTime args)))
                  (policy_hour (bookingHoursStart bookingPolicy))
            \<or> js_less (policy_hour (bookingHoursEnd bookingPolicy))
                  (dayjs_hour (dayjs_add_minute (dayjs_parse (book_date args) (book_startTime args))
                     (book_duration args))))"
    and avail: "checkRoomAvailability st (rid room) (book_date args) (book_startTime args) ?E None"
    and new_id: "generated_id ev1 \<notin> set (map bookingId (bookings st))"
    and st1: "st1 = st\<lparr>bookings := bookings st @
            [\<lparr>bookingId = generated_id ev1, roomId = rid room, booking_calendarId = calendarId room,
              eventId = generated_id ev1, title = book_title args, date = book_date args,
              startTime = book_startTime args, endTime = ?E,
              durationMinutes = book_duration args, requestedBy = writerEmail payload,
              requestedByName = writerName payload, status = active,
              createdAt = db_now ev1, updatedAt = db_now ev1\<rparr>]\<rparr>"
    by blast
  define b1 where "b1 = \<lparr>bookingId = generated_id ev1, roomId = rid room, booking_calendarId = calendarId room,
              eventId = generated_id ev1, title = book_title args, date = book_date args,
              startTime = book_startTime args, endTime = ?E,
              durationMinutes = book_duration args, requestedBy = writerEmail payload,
              requestedByName = writerName payload, status = active,
              createdAt = db_now ev1, updatedAt = db_now ev1\<rparr>"
  have others: "\<forall>x \<in> set (bookings st). bookingId x \<noteq> generated_id ev1"
    using new_id by (metis image_eqI set_map)
  have found: "getBookingById st1 (generated_id ev1) = Some b1"
    unfolding getBookingById_def st1 b1_def[symmetric]
    using find_append_fresh[of "bookings st" "\<lambda>b. bookingId b = generated_id ev1" b1] others
    by (simp add: b1_def)
  have st2: "r2 = succeeded (MsgCancelled (generated_id ev1) (map_option displayName (getRoomById st2 (roomId b1)))
                (date b1) (startTime b1) (endTime b1) (title b1)) None
      \<and> st2 = updateBookingStatus st1 (db_now ev2) (generated_id ev1) cancelled"
    using cancelled found requester
    by (auto simp: handleCancelCommand_def Let_def b1_def)
  have same: "map (\<lambda>b. if bookingId b = generated_id ev1 then b\<lparr>status := cancelled, updatedAt := db_now ev2\<rparr> else b)
                (bookings st) = bookings st"
    using others by (simp add: map_idI)
  have bs2: "bookings st2 = bookings st @ [b1\<lparr>status := cancelled, updatedAt := db_now ev2\<rparr>]"
    using st2 same by (simp add: updateBookingStatus_def st1 b1_def)
  have rooms2: "rooms st2 = rooms st"
    using st2 by (simp add: updateBookingStatus_def st1)
  have room2: "getRoomByName st2 (book_roomName args') = Some room"
    using room rooms2 window(1) by (simp add: getRoomByName_def)
  have avail2: "checkRoomAvailability st2 (rid room) (book_date args) (book_startTime args) ?E None"
    using avail by (simp add: checkRoomAvailability_def bs2)
  have "success r2" using st2 by (simp add: succeeded_def)
  moreover have "success (fst (handleBookCommand bookingPolicy ev3 st2 args' payload3))"
    using room2 window clock hours avail2 fresh
    by (simp add: handleBookCommand_def Let_def createBooking_def succeeded_def)
  ultimately show ?thesis by simp
qed
theorem rebook_after_cancel_witness:
  "success (fst (handleBookCommand default_policy (env_with_id ''R-1'') empty_store
             (book_args ''14:00'' 60) alice))
   \<and> success (fst (handleCancelCommand (env_with_id ''R-9'')
        (snd (handleBookCommand default_policy (env_with_id ''R-1'') empty_store
               (book_args ''14:00'' 60) alice))
        \<lparr>cancel_bookingId = ''R-1''\<rparr> alice))
   \<and> success (fst (handleBookCommand default_policy (env_with_id ''R-2'')
        (snd (handleCancelCommand (env_with_id ''R-9'')
           (snd (handleBookCommand default_policy (env_with_id ''R-1'') empty_store
                  (book_args ''14:00'' 60) alice))
           \<lparr>cancel_bookingId = ''R-1''\<rparr> alice))
        (book_args ''14:00'' 60) bob))"
proof -
  let ?b1 = "handleBookCommand default_policy (env_with_id ''R-1'') empty_store (book_args ''14:00'' 60) alice"
  let ?c = "handleCancelCommand (env_with_id ''R-9'') (snd ?b1) \<lparr>cancel_bookingId = ''R-1''\<rparr> alice"
  have b1: "?b1 = (fst ?b1, snd ?b1)" by simp
  have s1: "success (fst ?b1)" by (simp add: eval_defs)
  have c: "handleCancelCommand (env_with_id ''R-9'') (snd ?b1)
             \<lparr>cancel_bookingId = generated_id (env_with_id ''R-1'')\<rparr> alice = (fst ?c, snd ?c)"
    by (simp add: env_with_id_def)
  have clock: "\<not> dayjs_isBefore (dayjs_parse (book_date (book_args ''14:00'' 60))
                   (book_startTime (book_args ''14:00'' 60))) (Some (dayjs_now (env_with_id ''R-2'')))"
    by (simp add: eval_defs)
  have fresh: "generated_id (env_with_id ''R-2'') \<notin> set (map bookingId (bookings (snd ?c)))"
    by (simp add: eval_defs)
  from rebook_after_cancel[OF b1 s1 c refl refl refl refl refl clock fresh, of bob] s1
  show ?thesis by simp
qed

text \<open>
  Claim C7 as stated fails when the start has passed in the meantime: the booking for
  2026-01-07 14:00 is made and cancelled on the day before, and the same book command sent
  on 2026-01-07 at 15:00 is refused with PAST_TIME.
\<close>

theorem rebook_after_start_has_passed:
  "success (fst (handleBookCommand default_policy (env_with_id ''R-1'') empty_store
             (book_args ''14:00'' 60) alice))
   \<and> success (fst (handleCancelCommand (env_with_id ''R-9'')
        (snd (handleBookCommand default_policy (env_with_id ''R-1'') empty_store
               (book_args ''14:00'' 60) alice))
        \<lparr>cancel_bookingId = ''R-1''\<rparr> alice))
   \<and> fst (handleBookCommand default_policy
        ((env_with_id ''R-2'')\<lparr>dayjs_now := (20460 * 1440 + 900) * 60000\<rparr>)
        (snd (handleCancelCommand (env_with_id ''R-9'')
           (snd (handleBookCommand default_policy (env_with_id ''R-1'') empty_store
                  (book_args ''14:00'' 60) alice))
           \<lparr>cancel_bookingId = ''R-1''\<rparr> alice))
        (book_args ''14:00'' 60) alice) = failure PAST_TIME MsgPastTime"
  by (simp add: eval_defs)

section \<open>Requests on another requester's booking\<close>

text \<open>
  Claim C8, as amended. For a request that names an existing booking whose requester is
  not the caller: a move and an extend fail with UNAUTHORIZED; a cancel fails with
  UNAUTHORIZED when the booking is active and with INVALID_STATUS when it is not (the
  status is examined first). In every case the result is a failure other than not-found
  and the store is unchanged.
\<close>

theorem other_requester_is_unauthorized:
  assumes "getBookingById st bid = Some booking"
    and "requestedBy booking \<noteq> writerEmail payload"
  shows "handleMoveCommand ev st \<lparr>move_bookingId = bid, move_date = d, move_startTime = t\<rparr> payload =
           (failure UNAUTHORIZED MsgMoveUnauthorized, st)
       \<and> handleExtendCommand bookingPolicy ev st
            \<lparr>extend_bookingId = bid, extend_additionalMinutes = n\<rparr> payload =
           (failure UNAUTHORIZED MsgExtendUnauthorized, st)
       \<and> handleCancelCommand ev st \<lparr>cancel_bookingId = bid\<rparr> payload =
           (if status booking = active then failure UNAUTHORIZED MsgCancelUnauthorized
            else failure INVALID_STATUS (MsgInvalidStatus (status booking)), st)"
  using assms
  by (simp add: handleMoveCommand_def handleExtendCommand_def handleCancelCommand_def Let_def)
theorem other_requester_is_unauthorized_witness:
  "handleMoveCommand (env_with_id ''R-9'')
      (store_with [booking_of ''R-1'' ''alice@example.com'' ''14:00'' ''15:00'' 60])
      \<lparr>move_bookingId = ''R-1'', move_date = 20460, move_startTime = ''16:00''\<rparr> bob =
     (failure UNAUTHORIZED MsgMoveUnauthorized,
      store_with [booking_of ''R-1'' ''alice@example.com'' ''14:00'' ''15:00'' 60])
   \<and> handleExtendCommand default_policy (env_with_id ''R-9'')
      (store_with [booking_of ''R-1'' ''alice@example.com'' ''14:00'' ''15:00'' 60])
      \<lparr>extend_bookingId = ''R-1'', extend_additionalMinutes = 30\<rparr> bob =
     (failure UNAUTHORIZED MsgExtendUnauthorized,
      store_with [booking_of ''R-1'' ''alice@example.com'' ''14:00'' ''15:00'' 60])
   \<and> handleCancelCommand (env_with_id ''R-9'')
      (store_with [booking_of ''R-1'' ''alice@example.com'' ''14:00'' ''15:00'' 60])
      \<lparr>cancel_bookingId = ''R-1''\<rparr> bob =
     (failure UNAUTHORIZED MsgCancelUnauthorized,
      store_with [booking_of ''R-1'' ''alice@example.com'' ''14:00'' ''15:00'' 60])"
proof -
  let ?S = "store_with [booking_of ''R-1'' ''alice@example.com'' ''14:00'' ''15:00'' 60]"
  let ?B = "booking_of ''R-1'' ''alice@example.com'' ''14:00'' ''15:00'' 60"
  have found: "getBookingById ?S ''R-1'' = Some ?B"
    by (simp add: eval_defs)
  have other: "requestedBy ?B \<noteq> writerEmail bob"
    by (simp add: eval_defs)
  have act: "status ?B = active"
    by (simp add: booking_of_def)
  from other_requester_is_unauthorized[OF found other, of "env_with_id ''R-9''" 20460 "''16:00''"
      default_policy 30] act
  show ?thesis by simp
qed

text \<open>
  Claim C8 as stated fails for a cancel: Bob's cancel of Alice's booking that is already
  cancelled is answered with INVALID_STATUS, not with UNAUTHORIZED.
\<close>

theorem cancel_by_other_requester_counterexample:
  "requestedBy ((booking_of ''R-1'' ''alice@example.com'' ''14:00'' ''15:00'' 60)\<lparr>status := cancelled\<rparr>)
     \<noteq> writerEmail bob
   \<and> handleCancelCommand (env_with_id ''R-9'')
      (store_with [(booking_of ''R-1'' ''alice@example.com'' ''14:00'' ''15:00'' 60)\<lparr>status := cancelled\<rparr>])
      \<lparr>cancel_bookingId = ''R-1''\<rparr> bob =
     (failure INVALID_STATUS (MsgInvalidStatus cancelled),
      store_with [(booking_of ''R-1'' ''alice@example.com'' ''14:00'' ''15:00'' 60)\<lparr>status := cancelled\<rparr>])
   \<and> INVALID_STATUS \<noteq> UNAUTHORIZED"
  by (simp add: eval_defs)

section \<open>The audit log\<close>

lemma handleCommand_parse_failure:
  assumes "parseCommand co (data payload) = ParseFailure e"
  shows "handleCommand co bookingPolicy ev st payload =
     (formatResponse \<lparr>success = False, message = MsgParseError e, result_data = None,
                       error = Some \<lparr>code = PARSE_ERROR, details = None\<rparr>\<rparr>,
      logCommand ev
        (st\<lparr>process_log := process_log st @
             [LogReceived (writerEmail payload) (data payload) (roomName payload)]\<rparr>)
        payload help_cmd
        \<lparr>success = False, message = MsgParseError e, result_data = None,
          error = Some \<lparr>code = PARSE_ERROR, details = None\<rparr>\<rparr> (request_start ev))"
  using assms by (simp add: handleCommand_def Let_def)

text \<open>
  Claim C9, as amended. Every call of \<open>handleCommand\<close>, whatever the parser and the query
  handlers return or throw, appends exactly one entry to the audit log before it returns
  its response. The entry records the requester, the command text, the command type and the
  outcome, message and error details of the result the call has reached: for a parse
  failure the type \<open>help\<close> and the parse error, with no details; for a help command its
  text; for book, cancel, move and extend the type of the command and the result of its
  handler; for status, my and list the type of the command and the result the handler
  returns or, when it throws, the internal error with the message thrown as details. The
  response returned is formed from the same result. The elapsed processing time is not part
  of the entry (the entry is the same for any two readings of the request clock); it is
  written to the process log, in the line that reports the completion.
\<close>

theorem handleCommand_writes_one_audit_entry:
  assumes "st0 = st\<lparr>process_log := process_log st @
                    [LogReceived (writerEmail payload) (data payload) (roomName payload)]\<rparr>"
    and "ts = audit_db_now ev"
    and "after = snd (handleCommand co bookingPolicy ev st payload)"
  shows
   "(\<forall>e. parseCommand co (data payload) = ParseFailure e \<longrightarrow>
       audit_logs after = audit_logs st @
         [audit_entry ts payload help_cmd
            \<lparr>success = False, message = MsgParseError e, result_data = None,
              error = Some \<lparr>code = PARSE_ERROR, details = None\<rparr>\<rparr>])
    \<and> (\<forall>raw. parseCommand co (data payload) = ParseSuccess (HelpCommand raw) \<longrightarrow>
       audit_logs after = audit_logs st @ [audit_entry ts payload help_cmd (succeeded MsgHelp None)])
    \<and> (\<forall>args raw. parseCommand co (data payload) = ParseSuccess (BookCommand args raw) \<longrightarrow>
       audit_logs after = audit_logs st @
         [audit_entry ts payload book_cmd (fst (handleBookCommand bookingPolicy ev st0 args payload))])
    \<and> (\<forall>args raw. parseCommand co (data payload) = ParseSuccess (CancelCommand args raw) \<longrightarrow>
       audit_logs after = audit_logs st @
         [audit_entry ts payload cancel_cmd (fst (handleCancelCommand ev st0 args payload))])
    \<and> (\<forall>args raw. parseCommand co (data payload) = ParseSuccess (MoveCommand args raw) \<longrightarrow>
       audit_logs after = audit_logs st @
         [audit_entry ts payload move_cmd (fst (handleMoveCommand ev st0 args payload))])
    \<and> (\<forall>args raw. parseCommand co (data payload) = ParseSuccess (ExtendCommand args raw) \<longrightarrow>
       audit_logs after = audit_logs st @
         [audit_entry ts payload extend_cmd (fst (handleExtendCommand bookingPolicy ev st0 args payload))])
    \<and> (\<forall>args raw result. parseCommand co (data payload) = ParseSuccess (StatusCommand args raw)
          \<and> handleStatusCommand co st0 args = Inr result \<longrightarrow>
       audit_logs after = audit_logs st @ [audit_entry ts payload status_cmd result])
    \<and> (\<forall>args raw result. parseCommand co (data payload) = ParseSuccess (MyCommand args raw)
          \<and> handleMyCommand co st0 args payload = Inr result \<longrightarrow>
       audit_logs after = audit_logs st @ [audit_entry ts payload my_cmd result])
    \<and> (\<forall>args raw result. parseCommand co (data payload) = ParseSuccess (ListCommand args raw)
          \<and> handleListCommand co st0 args = Inr result \<longrightarrow>
       audit_logs after = audit_logs st @ [audit_entry ts payload list_cmd result])
    \<and> (\<forall>args raw m. parseCommand co (data payload) = ParseSuccess (StatusCommand args raw)
          \<and> handleStatusCommand co st0 args = Inl m \<longrightarrow>
       audit_logs after = audit_logs st @
         [audit_entry ts payload status_cmd
            \<lparr>success = False, message = MsgInternalError m, result_data = None,
              error = Some \<lparr>code = INTERNAL_ERROR, details = Some m\<rparr>\<rparr>])
    \<and> (\<forall>args raw m. parseCommand co (data payload) = ParseSuccess (MyCommand args raw)
          \<and> handleMyCommand co st0 args payload = Inl m \<longrightarrow>
       audit_logs after = audit_logs st @
         [audit_entry ts payload my_cmd
            \<lparr>success = False, message = MsgInternalError m, result_data = None,
              error = Some \<lparr>code = INTERNAL_ERROR, details = Some m\<rparr>\<rparr>])
    \<and> (\<forall>args raw m. parseCommand co (data payload) = ParseSuccess (ListCommand args raw)
          \<and> handleListCommand co st0 args = Inl m \<longrightarrow>
       audit_logs after = audit_logs st @
         [audit_entry ts payload list_cmd
            \<lparr>success = False, message = MsgInternalError m, result_data = None,
              error = Some \<lparr>code = INTERNAL_ERROR, details = Some m\<rparr>\<rparr>])
    \<and> length (audit_logs after) = Suc (length (audit_logs st))
    \<and> log_response (last (audit_logs after)) = body (fst (handleCommand co bookingPolicy ev st payload))
    \<and> (log_status (last (audit_logs after)) = success_status \<longleftrightarrow>
          connectColor (fst (handleCommand co bookingPolicy ev st payload)) = ''#2ECC71'')
    \<and> last (process_log after) =
          LogCompleted (writerEmail payload) (log_commandType (last (audit_logs after)))
            (log_status (last (audit_logs after)) = success_status)
            (request_end ev - request_start ev)
    \<and> audit_logs (snd (handleCommand co bookingPolicy (ev\<lparr>request_start := t0, request_end := t1\<rparr>) st payload)) =
          audit_logs after"
proof -
  have a0: "audit_logs st0 = audit_logs st" by (simp add: assms(1))
  obtain result commandType st1 where
    h: "handleCommand co bookingPolicy ev st payload =
       (formatResponse result, logCommand ev st1 payload commandType result (request_start ev))"
    and a: "audit_logs st1 = audit_logs st"
    using handleCommand_shape by blast
  have tail: "length (audit_logs after) = Suc (length (audit_logs st))
    \<and> log_response (last (audit_logs after)) = body (fst (handleCommand co bookingPolicy ev st payload))
    \<and> (log_status (last (audit_logs after)) = success_status \<longleftrightarrow>
          connectColor (fst (handleCommand co bookingPolicy ev st payload)) = ''#2ECC71'')
    \<and> last (process_log after) =
          LogCompleted (writerEmail payload) (log_commandType (last (audit_logs after)))
            (log_status (last (audit_logs after)) = success_status)
            (request_end ev - request_start ev)"
    unfolding assms(3) h
    by (simp add: a audit_logs_logCommand process_log_logCommand audit_entry_def formatResponse_def)
  have clock: "audit_logs (snd (handleCommand co bookingPolicy (ev\<lparr>request_start := t0, request_end := t1\<rparr>) st payload)) =
          audit_logs after"
    unfolding assms(3) by (rule audit_ignores_request_clock)
  have cases: "audit_logs after = audit_logs st @ [audit_entry ts payload (command_type command) (fst step)]"
    if "parseCommand co (data payload) = ParseSuccess command"
      and "step = (case command of
                       HelpCommand _ \<Rightarrow> (succeeded MsgHelp None, st0)
                     | StatusCommand args _ \<Rightarrow> caught st0 status_cmd (handleStatusCommand co st0 args)
                     | BookCommand args _ \<Rightarrow> handleBookCommand bookingPolicy ev st0 args payload
                     | CancelCommand args _ \<Rightarrow> handleCancelCommand ev st0 args payload
                     | MyCommand args _ \<Rightarrow> caught st0 my_cmd (handleMyCommand co st0 args payload)
                     | ListCommand args _ \<Rightarrow> caught st0 list_cmd (handleListCommand co st0 args)
                     | MoveCommand args _ \<Rightarrow> handleMoveCommand ev st0 args payload
                     | ExtendCommand args _ \<Rightarrow> handleExtendCommand bookingPolicy ev st0 args payload)"
    for command step
  proof -
    have s: "audit_logs (snd step) = audit_logs st"
      unfolding that(2)
      by (cases command)
        (simp_all add: a0 audit_logs_book audit_logs_cancel audit_logs_move audit_logs_extend
          audit_logs_caught)
    have "handleCommand co bookingPolicy ev st payload =
       (formatResponse (fst step), logCommand ev (snd step) payload (command_type command) (fst step) (request_start ev))"
      unfolding handleCommand_def Let_def that(2) assms(1)
      using that(1) by (simp add: split_beta)
    then show ?thesis
      unfolding assms(3) by (simp add: audit_logs_logCommand s assms(2))
  qed
  show ?thesis
  proof (intro conjI allI impI)
    fix e assume "parseCommand co (data payload) = ParseFailure e"
    then show "audit_logs after = audit_logs st @
         [audit_entry ts payload help_cmd
            \<lparr>success = False, message = MsgParseError e, result_data = None,
              error = Some \<lparr>code = PARSE_ERROR, details = None\<rparr>\<rparr>]"
      unfolding assms(3) by (simp add: handleCommand_parse_failure audit_logs_logCommand assms(2))
  next
    fix raw assume "parseCommand co (data payload) = ParseSuccess (HelpCommand raw)"
    from cases[OF this refl]
    show "audit_logs after = audit_logs st @ [audit_entry ts payload help_cmd (succeeded MsgHelp None)]"
      by simp
  next
    fix args raw assume "parseCommand co (data payload) = ParseSuccess (BookCommand args raw)"
    from cases[OF this refl]
    show "audit_logs after = audit_logs st @
         [audit_entry ts payload book_cmd (fst (handleBookCommand bookingPolicy ev st0 args payload))]"
      by simp
  next
    fix args raw assume "parseCommand co (data payload) = ParseSuccess (CancelCommand args raw)"
    from cases[OF this refl]
    show "audit_logs after = audit_logs st @
         [audit_entry ts payload cancel_cmd (fst (handleCancelCommand ev st0 args payload))]"
      by simp
  next
    fix args raw assume "parseCommand co (data payload) = ParseSuccess (MoveCommand args raw)"
    from cases[OF this refl]
    show "audit_logs after = audit_logs st @
         [audit_entry ts payload move_cmd (fst (handleMoveCommand ev st0 args payload))]"
      by simp
  next
    fix args raw assume "parseCommand co (data payload) = ParseSuccess (ExtendCommand args raw)"
    from cases[OF this refl]
    show "audit_logs after = audit_logs st @
         [audit_entry ts payload extend_cmd (fst (handleExtendCommand bookingPolicy ev st0 args payload))]"
      by simp
  next
    fix args raw result
    assume "parseCommand co (data payload) = ParseSuccess (StatusCommand args raw)
          \<and> handleStatusCommand co st0 args = Inr result"
    then have p: "parseCommand co (data payload) = ParseSuccess (StatusCommand args raw)"
      and r: "handleStatusCommand co st0 args = Inr result" by simp_all
    from cases[OF p refl] r
    show "audit_logs after = audit_logs st @ [audit_entry ts payload status_cmd result]"
      by (simp add: caught_def)
  next
    fix args raw result
    assume "parseCommand co (data payload) = ParseSuccess (MyCommand args raw)
          \<and> handleMyCommand co st0 args payload = Inr result"
    then have p: "parseCommand co (data payload) = ParseSuccess (MyCommand args raw)"
      and r: "handleMyCommand co st0 args payload = Inr result" by simp_all
    from cases[OF p refl] r
    show "audit_logs after = audit_logs st @ [audit_entry ts payload my_cmd result]"
      by (simp add: caught_def)
  next
    fix args raw result
    assume "parseCommand co (data payload) = ParseSuccess (ListCommand args raw)
          \<and> handleListCommand co st0 args = Inr result"
    then have p: "parseCommand co (data payload) = ParseSuccess (ListCommand args raw)"
      and r: "handleListCommand co st0 args = Inr result" by simp_all
    from cases[OF p refl] r
    show "audit_logs after = audit_logs st @ [audit_entry ts payload list_cmd result]"
      by (simp add: caught_def)
  next
    fix args raw m
    assume "parseCommand co (data payload) = ParseSuccess (StatusCommand args raw)
          \<and> handleStatusCommand co st0 args = Inl m"
    then have p: "parseCommand co (data payload) = ParseSuccess (StatusCommand args raw)"
      and r: "handleStatusCommand co st0 args = Inl m" by simp_all
    from cases[OF p refl] r
    show "audit_logs after = audit_logs st @
         [audit_entry ts payload status_cmd
            \<lparr>success = False, message = MsgInternalError m, result_data = None,
              error = Some \<lparr>code = INTERNAL_ERROR, details = Some m\<rparr>\<rparr>]"
      by (simp add: caught_def)
  next
    fix args raw m
    assume "parseCommand co (data payload) = ParseSuccess (MyCommand args raw)
          \<and> handleMyCommand co st0 args payload = Inl m"
    then have p: "parseCommand co (data payload) = ParseSuccess (MyCommand args raw)"
      and r: "handleMyCommand co st0 args payload = Inl m" by simp_all
    from cases[OF p refl] r
    show "audit_logs after = audit_logs st @
         [audit_entry ts payload my_cmd
            \<lparr>success = False, message = MsgInternalError m, result_data = None,
              error = Some \<lparr>code = INTERNAL_ERROR, details = Some m\<rparr>\<rparr>]"
      by (simp add: caught_def)
  next
    fix args raw m
    assume "parseCommand co (data payload) = ParseSuccess (ListCommand args raw)
          \<and> handleListCommand co st0 args = Inl m"
    then have p: "parseCommand co (data payload) = ParseSuccess (ListCommand args raw)"
      and r: "handleListCommand co st0 args = Inl m" by simp_all
    from cases[OF p refl] r
    show "audit_logs after = audit_logs st @
         [audit_entry ts payload list_cmd
            \<lparr>success = False, message = MsgInternalError m, result_data = None,
              error = Some \<lparr>code = INTERNAL_ERROR, details = Some m\<rparr>\<rparr>]"
      by (simp add: caught_def)
  qed (use tail clock in simp_all)
qed

theorem handleCommand_writes_one_audit_entry_witness:
  "audit_logs (snd (handleCommand failing_status_collaborators default_policy
       ((env_with_id ''R-1'')\<lparr>request_start := 0, request_end := 99\<rparr>) empty_store status_request)) =
     [\<lparr>log_userEmail = ''alice@example.com'', log_userName = ''Alice'',
       log_command = ''room status'', log_commandType = status_cmd,
       log_parameters = status_request, log_status = failure_status,
       log_response = MsgInternalError ''database is locked'',
       log_errorMessage = Some ''database is locked'',
       log_ipAddress = ''10.0.0.1'', log_roomName = ''general'',
       log_timestamp = ''2026-01-06 00:00:00''\<rparr>]
   \<and> audit_logs (snd (handleCommand failing_status_collaborators default_policy
       ((env_with_id ''R-1'')\<lparr>request_start := 0, request_end := 99\<rparr>) empty_store
       (status_request\<lparr>data := ''bogus''\<rparr>))) =
     [\<lparr>log_userEmail = ''alice@example.com'', log_userName = ''Alice'',
       log_command = ''room status'', log_commandType = help_cmd,
       log_parameters = status_request\<lparr>data := ''bogus''\<rparr>, log_status = failure_status,
       log_response = MsgParseError ''unknown command'',
       log_errorMessage = None,
       log_ipAddress = ''10.0.0.1'', log_roomName = ''general'',
       log_timestamp = ''2026-01-06 00:00:00''\<rparr>]"
proof -
  let ?ev = "(env_with_id ''R-1'')\<lparr>request_start := 0, request_end := 99\<rparr>"
  let ?args = "\<lparr>status_date = Some 20459, status_timeRange = None\<rparr>"
  note T = handleCommand_writes_one_audit_entry[where co = failing_status_collaborators
      and bookingPolicy = default_policy and ev = ?ev and st = empty_store, OF refl refl refl]
  have p: "parseCommand failing_status_collaborators (data status_request) =
        ParseSuccess (StatusCommand ?args ''status'')"
    by (simp add: failing_status_collaborators_def status_request_def)
  have h: "handleStatusCommand failing_status_collaborators st0 ?args = Inl ''database is locked''" for st0
    by (simp add: failing_status_collaborators_def)
  have q: "parseCommand failing_status_collaborators (data (status_request\<lparr>data := ''bogus''\<rparr>)) =
        ParseFailure ''unknown command''"
    by (simp add: failing_status_collaborators_def)
  have ts: "audit_db_now ?ev = ''2026-01-06 00:00:00''"
    by (simp add: env_with_id_def)
  have a0: "audit_logs empty_store = []"
    by (simp add: empty_store_def)
  note c2 = conjunct2
  have 1: "audit_logs (snd (handleCommand failing_status_collaborators default_policy ?ev empty_store status_request)) =
         audit_logs empty_store @
         [audit_entry (audit_db_now ?ev) status_request status_cmd
            \<lparr>success = False, message = MsgInternalError ''database is locked'', result_data = None,
              error = Some \<lparr>code = INTERNAL_ERROR, details = Some ''database is locked''\<rparr>\<rparr>]"
    by (rule T[where payload = status_request, THEN c2, THEN c2, THEN c2, THEN c2, THEN c2,
          THEN c2, THEN c2, THEN c2, THEN c2, THEN conjunct1, rule_format, OF conjI, OF p h])
  have 2: "audit_logs (snd (handleCommand failing_status_collaborators default_policy ?ev empty_store
            (status_request\<lparr>data := ''bogus''\<rparr>))) =
         audit_logs empty_store @
         [audit_entry (audit_db_now ?ev) (status_request\<lparr>data := ''bogus''\<rparr>) help_cmd
            \<lparr>success = False, message = MsgParseError ''unknown command'', result_data = None,
              error = Some \<lparr>code = PARSE_ERROR, details = None\<rparr>\<rparr>]"
    by (rule T[where payload = "status_request\<lparr>data := ''bogus''\<rparr>", THEN conjunct1, rule_format, OF q])
  show ?thesis
    unfolding 1 2 ts a0
    by (simp add: audit_entry_def status_request_def)
qed

text \<open>
  Claim C9 as stated fails in its last part: two calls that differ only in the elapsed
  time (7 ms and 999 ms) store the same audit entry; the elapsed time appears in the
  process log only.
\<close>

theorem audit_entry_without_elapsed_time:
  "audit_logs (snd (handleCommand help_collaborators default_policy
       ((env_with_id ''R-1'')\<lparr>request_start := 1000, request_end := 1007\<rparr>) empty_store help_request)) =
     [audit_entry ''2026-01-06 00:00:00'' help_request help_cmd (succeeded MsgHelp None)]
   \<and> audit_logs (snd (handleCommand help_collaborators default_policy
       ((env_with_id ''R-1'')\<lparr>request_start := 1000, request_end := 1999\<rparr>) empty_store help_request)) =
     [audit_entry ''2026-01-06 00:00:00'' help_request help_cmd (succeeded MsgHelp None)]
   \<and> process_log (snd (handleCommand help_collaborators default_policy
       ((env_with_id ''R-1'')\<lparr>request_start := 1000, request_end := 1007\<rparr>) empty_store help_request)) =
     [LogReceived ''alice@example.com'' ''help'' ''general'',
      LogCompleted ''alice@example.com'' help_cmd True 7]
   \<and> process_log (snd (handleCommand help_collaborators default_policy
       ((env_with_id ''R-1'')\<lparr>request_start := 1000, request_end := 1999\<rparr>) empty_store help_request)) =
     [LogReceived ''alice@example.com'' ''help'' ''general'',
      LogCompleted ''alice@example.com'' help_cmd True 999]"
  by (simp add: handleCommand_def help_collaborators_def help_request_def logCommand_def
      createAuditLog_def audit_entry_def eval_defs)

section \<open>Moves and extensions of bookings that are not active\<close>

text \<open>
  Claim C10. The move and extend handlers never examine the status of the booking: giving
  the named booking any other status changes neither the result of a move or an extend nor
  what it writes, so a cancelled or completed booking goes through the same checks as an
  active one; when the request succeeds the time fields of the record are rewritten and
  its status stays as it was. A cancel of a booking that is not active is rejected with
  INVALID_STATUS. (Booking identifiers are not empty: the parser's tokens and the
  generated identifiers never are. For the empty text \<open>checkRoomAvailability\<close> would not
  exclude the booking itself.)
\<close>

theorem move_and_extend_ignore_status:
  assumes "move_bookingId margs \<noteq> []" and "extend_bookingId eargs \<noteq> []"
  shows "handleMoveCommand ev (set_status (move_bookingId margs) s st) margs payload =
           (fst (handleMoveCommand ev st margs payload),
            set_status (move_bookingId margs) s (snd (handleMoveCommand ev st margs payload)))
       \<and> handleExtendCommand bookingPolicy ev (set_status (extend_bookingId eargs) s st) eargs payload =
           (fst (handleExtendCommand bookingPolicy ev st eargs payload),
            set_status (extend_bookingId eargs) s (snd (handleExtendCommand bookingPolicy ev st eargs payload)))
       \<and> (\<forall>booking. getBookingById st (move_bookingId margs) = Some booking
             \<and> success (fst (handleMoveCommand ev st margs payload)) \<longrightarrow>
             getBookingById (snd (handleMoveCommand ev st margs payload)) (move_bookingId margs) =
               Some (booking\<lparr>date := move_date margs, startTime := move_startTime margs,
                       endTime := dayjs_format_HHmm (dayjs_add_minute
                          (dayjs_parse (move_date margs) (move_startTime margs)) (durationMinutes booking)),
                       updatedAt := db_now ev\<rparr>))
       \<and> (\<forall>booking. getBookingById st (extend_bookingId eargs) = Some booking
             \<and> success (fst (handleExtendCommand bookingPolicy ev st eargs payload)) \<longrightarrow>
             getBookingById (snd (handleExtendCommand bookingPolicy ev st eargs payload)) (extend_bookingId eargs) =
               Some (booking\<lparr>endTime := dayjs_format_HHmm (dayjs_add_minute
                          (dayjs_parse (date booking) (endTime booking)) (extend_additionalMinutes eargs)),
                       durationMinutes := durationMinutes booking + extend_additionalMinutes eargs,
                       updatedAt := db_now ev\<rparr>))
       \<and> (\<forall>booking. getBookingById st (cancel_bookingId cargs) = Some booking
             \<and> status booking \<noteq> active \<longrightarrow>
             handleCancelCommand ev st cargs payload =
               (failure INVALID_STATUS (MsgInvalidStatus (status booking)), st))"
  using move_ignores_status[OF assms(1)] extend_ignores_status[OF assms(2)]
    move_keeps_status extend_keeps_status
  by (simp add: handleCancelCommand_def)
theorem move_and_extend_ignore_status_witness:
  "handleMoveCommand (env_with_id ''R-9'')
      (store_with [(booking_of ''R-1'' ''alice@example.com'' ''14:00'' ''15:00'' 60)\<lparr>status := cancelled\<rparr>])
      \<lparr>move_bookingId = ''R-1'', move_date = 20460, move_startTime = ''16:00''\<rparr> alice =
     (succeeded (MsgMoved ''R-1'' ''Room A'' 20460 ''14:00'' ''15:00'' 20460 ''16:00'' ''17:00'') None,
      store_with [(booking_of ''R-1'' ''alice@example.com'' ''16:00'' ''17:00'' 60)\<lparr>status := cancelled\<rparr>])
   \<and> handleExtendCommand default_policy (env_with_id ''R-9'')
      (store_with [(booking_of ''R-1'' ''alice@example.com'' ''14:00'' ''15:00'' 60)\<lparr>status := cancelled\<rparr>])
      \<lparr>extend_bookingId = ''R-1'', extend_additionalMinutes = 30\<rparr> alice =
     (succeeded (MsgExtended ''R-1'' ''Room A'' 20460 ''14:00'' ''15:30'' 30 90) None,
      store_with [(booking_of ''R-1'' ''alice@example.com'' ''14:00'' ''15:30'' 90)\<lparr>status := cancelled\<rparr>])
   \<and> handleCancelCommand (env_with_id ''R-9'')
      (store_with [(booking_of ''R-1'' ''alice@example.com'' ''14:00'' ''15:00'' 60)\<lparr>status := cancelled\<rparr>])
      \<lparr>cancel_bookingId = ''R-1''\<rparr> alice =
     (failure INVALID_STATUS (MsgInvalidStatus cancelled),
      store_with [(booking_of ''R-1'' ''alice@example.com'' ''14:00'' ''15:00'' 60)\<lparr>status := cancelled\<rparr>])"
proof -
  let ?S = "store_with [booking_of ''R-1'' ''alice@example.com'' ''14:00'' ''15:00'' 60]"
  let ?m = "\<lparr>move_bookingId = ''R-1'', move_date = 20460, move_startTime = ''16:00''\<rparr>"
  let ?e = "\<lparr>extend_bookingId = ''R-1'', extend_additionalMinutes = 30\<rparr>"
  let ?c = "\<lparr>cancel_bookingId = ''R-1''\<rparr>"
  let ?C = "store_with [(booking_of ''R-1'' ''alice@example.com'' ''14:00'' ''15:00'' 60)\<lparr>status := cancelled\<rparr>]"
  have ids: "move_bookingId ?m \<noteq> []" "extend_bookingId ?e \<noteq> []"
    by simp_all
  have C: "set_status (move_bookingId ?m) cancelled ?S = ?C" "set_status (extend_bookingId ?e) cancelled ?S = ?C"
    by (simp_all add: set_status_def store_with_def booking_of_def)
  have m: "handleMoveCommand (env_with_id ''R-9'') ?S ?m alice =
     (succeeded (MsgMoved ''R-1'' ''Room A'' 20460 ''14:00'' ''15:00'' 20460 ''16:00'' ''17:00'') None,
      store_with [booking_of ''R-1'' ''alice@example.com'' ''16:00'' ''17:00'' 60])"
    by (simp add: eval_defs)
  have e: "handleExtendCommand default_policy (env_with_id ''R-9'') ?S ?e alice =
     (succeeded (MsgExtended ''R-1'' ''Room A'' 20460 ''14:00'' ''15:30'' 30 90) None,
      store_with [booking_of ''R-1'' ''alice@example.com'' ''14:00'' ''15:30'' 90])"
    by (simp add: eval_defs)
  have found: "getBookingById ?C (cancel_bookingId ?c) =
      Some ((booking_of ''R-1'' ''alice@example.com'' ''14:00'' ''15:00'' 60)\<lparr>status := cancelled\<rparr>)"
    by (simp add: eval_defs)
  note t = move_and_extend_ignore_status[OF ids, of "env_with_id ''R-9''" cancelled ?S alice
      default_policy]
  note t' = move_and_extend_ignore_status[OF ids, of "env_with_id ''R-9''" _ ?C alice _ ?c]
  have 1: "handleMoveCommand (env_with_id ''R-9'') ?C ?m alice =
     (succeeded (MsgMoved ''R-1'' ''Room A'' 20460 ''14:00'' ''15:00'' 20460 ''16:00'' ''17:00'') None,
      store_with [(booking_of ''R-1'' ''alice@example.com'' ''16:00'' ''17:00'' 60)\<lparr>status := cancelled\<rparr>])"
    using t C m by (simp add: set_status_def store_with_def booking_of_def)
  have 2: "handleExtendCommand default_policy (env_with_id ''R-9'') ?C ?e alice =
     (succeeded (MsgExtended ''R-1'' ''Room A'' 20460 ''14:00'' ''15:30'' 30 90) None,
      store_with [(booking_of ''R-1'' ''alice@example.com'' ''14:00'' ''15:30'' 90)\<lparr>status := cancelled\<rparr>])"
    using t C e by (simp add: set_status_def store_with_def booking_of_def)
  have 3: "handleCancelCommand (env_with_id ''R-9'') ?C ?c alice =
     (failure INVALID_STATUS (MsgInvalidStatus cancelled), ?C)"
    using t' found by (simp add: booking_of_def)
  show ?thesis using 1 2 3 by simp
qed

end
